theory Spec2Isabelle
  imports Main
begin

section \<open>Values, exceptions and HTTP errors\<close>

text \<open>
  Python values that travel through the dispatcher: request parameters, keyword
  arguments, the content a logic function returns. A dict keeps insertion order, so
  it is an association list.
\<close>

datatype pyval =
    PNone
  | PBool bool
  | PInt int
  | PStr string
  | PList "pyval list"
  | PDict "(string \<times> pyval) list"

type_synonym pydict = "(string \<times> pyval) list"

text \<open>
  An exception object: the name of its concrete class, the names of the classes that
  class derives from (its method resolution order without itself), its message and the
  \<open>errors\<close> attribute (\<open>None\<close> when the attribute is absent or None, which is what
  \<open>getattr(e, 'errors', None)\<close> reads).
\<close>

record exn =
  exc_class :: string
  exc_bases :: "string list"
  exc_message :: string
  exc_errors :: "(string \<times> string) list option"

definition isinstance :: "exn \<Rightarrow> string \<Rightarrow> bool" where
  "isinstance e cls = (cls \<in> set (exc_class e # exc_bases e))"

text \<open>Built-in exceptions the interpreter raises inside the dispatcher.\<close>

definition builtin_error :: "string \<Rightarrow> string list \<Rightarrow> string \<Rightarrow> exn" where
  "builtin_error cls bases msg =
     \<lparr>exc_class = cls, exc_bases = bases @ [''Exception'', ''BaseException'', ''object''],
      exc_message = msg, exc_errors = None\<rparr>"

definition AttributeError :: "string \<Rightarrow> exn" where
  "AttributeError msg = builtin_error ''AttributeError'' [] msg"

definition KeyError :: "string \<Rightarrow> exn" where
  "KeyError k = builtin_error ''KeyError'' [''LookupError''] k"

definition TypeError :: "string \<Rightarrow> exn" where
  "TypeError msg = builtin_error ''TypeError'' [] msg"

text \<open>
  \<open>InvalidValueError(message)\<close> of doctor.errors. The module is outside the sources at
  hand, so the ancestors of the class are a parameter; the \<open>errors\<close> attribute of an
  error built from a message alone is None.
\<close>

definition InvalidValueError :: "string list \<Rightarrow> string \<Rightarrow> exn" where
  "InvalidValueError bases msg =
     \<lparr>exc_class = ''InvalidValueError'', exc_bases = bases, exc_message = msg,
      exc_errors = None\<rparr>"

text \<open>
  The HTTP exception classes of doctor.flask. Each inherits its status code from the
  werkzeug class it mixes in.
\<close>

datatype http_class =
    HTTP400Exception
  | HTTP401Exception
  | HTTP403Exception
  | HTTP404Exception
  | HTTP409Exception
  | HTTP500Exception

fun http_code :: "http_class \<Rightarrow> nat" where
  "http_code HTTP400Exception = 400"
| "http_code HTTP401Exception = 401"
| "http_code HTTP403Exception = 403"
| "http_code HTTP404Exception = 404"
| "http_code HTTP409Exception = 409"
| "http_code HTTP500Exception = 500"

text \<open>
  \<open>SchematicHTTPException(description, errobj)\<close>: the description is either the caught
  exception itself or a literal string.
\<close>

datatype description = FromException exn | Text string

record http_exception =
  http_cls :: http_class
  http_description :: description
  http_errobj :: "(string \<times> string) list option"

definition SchematicHTTPException ::
  "http_class \<Rightarrow> description \<Rightarrow> (string \<times> string) list option \<Rightarrow> http_exception" where
  "SchematicHTTPException c d errobj =
     \<lparr>http_cls = c, http_description = d, http_errobj = errobj\<rparr>"

text \<open>What leaves a handler by \<open>raise\<close>: an HTTP exception or the original exception.\<close>

datatype escaping = Http http_exception | Original exn

text \<open>
  Observable effects, in the order they happen: the call of the logic function, the
  warning of a failed response validation (method, path, response text, exception) and
  \<open>logging.exception\<close>.
\<close>

datatype effect =
    LogicCalled "pyval list" pydict
  | LogWarning string string string exn
  | LogException exn

section \<open>Exception translation\<close>

text \<open>
  \<open>allowed_exceptions and any(isinstance(e, cls) for cls in allowed_exceptions)\<close>:
  None and the empty list are both falsy.
\<close>

definition allowed_match :: "string list option \<Rightarrow> exn \<Rightarrow> bool" where
  "allowed_match allowed e =
     (case allowed of
        None \<Rightarrow> False
      | Some clss \<Rightarrow> clss \<noteq> [] \<and> list_ex (isinstance e) clss)"

text \<open>
  The last clause of both handlers, \<open>except Exception\<close>. An exception that is not an
  instance of Exception is caught by no clause and propagates.
\<close>

definition catch_all :: "bool \<Rightarrow> string list option \<Rightarrow> exn \<Rightarrow> escaping \<times> effect list" where
  "catch_all debug allowed e =
     (if isinstance e ''Exception'' then
        (if debug then (Original e, [])
         else if allowed_match allowed e then (Original e, [])
         else (Http (SchematicHTTPException HTTP500Exception
                       (Text ''Uncaught error in logic function'') None),
               [LogException e]))
      else (Original e, []))"

definition wrap_http :: "http_class \<Rightarrow> exn \<Rightarrow> escaping \<times> effect list" where
  "wrap_http c e = (Http (SchematicHTTPException c (FromException e) None), [])"

text \<open>
  Clauses two to five, the same in both handlers; \<open>rest\<close> is what follows them.
\<close>

definition except_auth_chain ::
  "(exn \<Rightarrow> escaping \<times> effect list) \<Rightarrow> exn \<Rightarrow> escaping \<times> effect list" where
  "except_auth_chain rest e =
     (if isinstance e ''UnauthorizedError'' then wrap_http HTTP401Exception e
      else if isinstance e ''ForbiddenError'' then wrap_http HTTP403Exception e
      else if isinstance e ''NotFoundError'' then wrap_http HTTP404Exception e
      else if isinstance e ''ImmutableError'' then wrap_http HTTP409Exception e
      else rest e)"

text \<open>The except clauses of \<open>handle_http_v3\<close> (type-annotation mode).\<close>

definition except_v3 :: "bool \<Rightarrow> string list option \<Rightarrow> exn \<Rightarrow> escaping \<times> effect list" where
  "except_v3 debug allowed e =
     (if isinstance e ''InvalidValueError'' \<or> isinstance e ''TypeSystemError'' then
        (Http (SchematicHTTPException HTTP400Exception (FromException e) (exc_errors e)), [])
      else except_auth_chain (catch_all debug allowed) e)"

text \<open>The except clauses of \<open>handle_http\<close> (schema mode).\<close>

definition except_http :: "bool \<Rightarrow> string list option \<Rightarrow> exn \<Rightarrow> escaping \<times> effect list" where
  "except_http debug allowed e =
     (if isinstance e ''InvalidValueError'' \<or> isinstance e ''ParseError''
         \<or> isinstance e ''SchemaValidationError'' then
        (Http (SchematicHTTPException HTTP400Exception (FromException e) (exc_errors e)), [])
      else except_auth_chain (catch_all debug allowed) e)"

section \<open>Requests, logic functions and configuration\<close>

text \<open>
  What the dispatcher reads from Flask's request object. \<open>req_json\<close> is the outcome of
  reading \<open>request.json\<close> (which raises on a body that does not parse);
  \<open>req_values\<close> is what \<open>request.values.items()\<close> yields.
\<close>

record request =
  req_mimetype :: string
  req_method :: string
  req_path :: string
  req_json :: "exn + pyval"
  req_values :: pydict

text \<open>The \<open>Response\<close> envelope of doctor.response, or a bare return value.\<close>

datatype retval = Plain pyval | Response pyval "(string \<times> string) list"

text \<open>The reply tuple handed back to the framework.\<close>

datatype reply =
    Reply2 pyval nat
  | Reply3 pyval nat "(string \<times> string) list"

text \<open>\<open>doctor.utils.Params\<close>, as attached to a logic function in \<open>_doctor_params\<close>.\<close>

record Params =
  all :: "string list"
  required :: "string list"
  optional :: "string list"
  logic :: "string list"

text \<open>
  The parsed signature in \<open>_doctor_signature\<close>: each parameter's annotation as the
  callable it is (it returns the coerced value or raises), and the return annotation,
  None for \<open>sig.empty\<close>.
\<close>

type_synonym annotation = "pyval \<Rightarrow> exn + pyval"

record signature =
  parameters :: "(string \<times> annotation) list"
  return_annotation :: "annotation option"

text \<open>
  A logic function: its \<open>__name__\<close>, the attributes \<open>HTTPMethod\<close> attaches, and
  what calling it with positional and keyword arguments gives.
\<close>

record logic_fn =
  logic_name :: string
  doctor_params :: Params
  doctor_signature :: signature
  call :: "pyval list \<Rightarrow> pydict \<Rightarrow> exn + retval"

text \<open>
  Process state and library constants the handlers read: the truthiness of
  \<open>current_app.config.get('DEBUG', False)\<close>, the value of the environment variable
  \<open>RAISE_RESPONSE_VALIDATION_ERRORS\<close> (None when unset), \<open>MAX_RESPONSE_LENGTH\<close> of
  doctor.constants, \<open>str\<close> on a returned content, \<open>six.text_type\<close> on a returned
  object, and the ancestors of \<open>InvalidValueError\<close>.
\<close>

record world =
  app_debug :: bool
  environ_raise :: "string option"
  MAX_RESPONSE_LENGTH :: nat
  str_of :: "pyval \<Rightarrow> string"
  text_type :: "retval \<Rightarrow> string"
  invalid_value_bases :: "string list"

text \<open>
  Modelled from the spec: \<open>HTTP_METHODS_WITH_JSON_BODY\<close> of doctor.constants, a module
  outside the sources at hand; the spec names the verbs that conventionally carry a JSON
  body as POST, PUT and PATCH.
\<close>

definition HTTP_METHODS_WITH_JSON_BODY :: "string list" where
  "HTTP_METHODS_WITH_JSON_BODY = [''POST'', ''PUT'', ''PATCH'']"

definition STATUS_CODE_MAP :: "(string \<times> nat) list" where
  "STATUS_CODE_MAP = [(''POST'', 201), (''DELETE'', 204)]"

text \<open>\<open>STATUS_CODE_MAP.get(request.method, 200)\<close>\<close>

definition status_for :: "string \<Rightarrow> nat" where
  "status_for m = (case map_of STATUS_CODE_MAP m of Some c \<Rightarrow> c | None \<Rightarrow> 200)"

section \<open>Dictionaries\<close>

text \<open>\<open>d[k] = v\<close>: an existing key keeps its place, a new key goes last.\<close>

fun dict_set :: "('k \<times> 'v) list \<Rightarrow> 'k \<Rightarrow> 'v \<Rightarrow> ('k \<times> 'v) list" where
  "dict_set [] k v = [(k, v)]"
| "dict_set ((k', v') # d) k v =
     (if k' = k then (k, v) # d else (k', v') # dict_set d k v)"

text \<open>\<open>d.update(**kw)\<close>, and a dict built from a sequence of items.\<close>

definition dict_update :: "pydict \<Rightarrow> pydict \<Rightarrow> pydict" where
  "dict_update d kw = fold (\<lambda>(k, v) acc. dict_set acc k v) kw d"

definition dict_of_items :: "pydict \<Rightarrow> pydict" where
  "dict_of_items items = dict_update [] items"

text \<open>\<open>x.items()\<close>: only a dict has the method.\<close>

definition items :: "pyval \<Rightarrow> exn + pydict" where
  "items x =
     (case x of
        PDict d \<Rightarrow> Inr d
      | _ \<Rightarrow> Inl (AttributeError ''object has no attribute items''))"

section \<open>The type-annotation dispatcher\<close>

definition json_request :: "request \<Rightarrow> bool" where
  "json_request req =
     (req_mimetype req = ''application/json''
      \<and> req_method req \<in> set HTTP_METHODS_WITH_JSON_BODY)"

text \<open>
  The parameter source and its items: \<open>request.json\<close> for a JSON request, else
  \<open>request.values\<close>.
\<close>

definition request_params :: "request \<Rightarrow> exn + pydict" where
  "request_params req =
     (if json_request req then
        (case req_json req of Inl e \<Rightarrow> Inl e | Inr body \<Rightarrow> items body)
      else Inr (req_values req))"

text \<open>
  \<open>params = {k: v for k, v in request_params.items() if k in all_params}\<close>
  followed by \<open>params.update(**kwargs)\<close>.
\<close>

definition merged_params :: "request \<Rightarrow> logic_fn \<Rightarrow> pydict \<Rightarrow> exn + pydict" where
  "merged_params req lg kwargs =
     (case request_params req of
        Inl e \<Rightarrow> Inl e
      | Inr its \<Rightarrow>
          Inr (dict_update
                 (dict_of_items (filter (\<lambda>(k, v). k \<in> set (all (doctor_params lg))) its))
                 kwargs))"

text \<open>The loop over \<open>logic._doctor_params.required\<close>: the first absent name raises.\<close>

fun check_required :: "string list \<Rightarrow> string list \<Rightarrow> pydict \<Rightarrow> exn + unit" where
  "check_required bases [] params = Inr ()"
| "check_required bases (r # rs) params =
     (if r \<notin> set (map fst params)
      then Inl (InvalidValueError bases (r @ '' is required.''))
      else check_required bases rs params)"

text \<open>
  The coercion loop: \<open>sig.parameters[name]\<close> raises KeyError on a name the signature
  does not have, and the annotation raises on a value it rejects.
\<close>

fun coerce_params :: "(string \<times> annotation) list \<Rightarrow> pydict \<Rightarrow> exn + pydict" where
  "coerce_params ps [] = Inr []"
| "coerce_params ps ((name, v) # rest) =
     (case map_of ps name of
        None \<Rightarrow> Inl (KeyError name)
      | Some ann \<Rightarrow>
          (case ann v of
             Inl e \<Rightarrow> Inl e
           | Inr v' \<Rightarrow>
               (case coerce_params ps rest of
                  Inl e \<Rightarrow> Inl e
                | Inr rest' \<Rightarrow> Inr ((name, v') # rest'))))"

definition should_raise_response_validation_errors :: "world \<Rightarrow> bool" where
  "should_raise_response_validation_errors w =
     (app_debug w \<or> (case environ_raise w of None \<Rightarrow> False | Some s \<Rightarrow> s \<noteq> []))"

text \<open>The cap on the logged response text.\<close>

definition truncate_response :: "nat \<Rightarrow> string \<Rightarrow> string" where
  "truncate_response n s = (if length s > n then take n s @ ''...'' else s)"

definition content_of :: "retval \<Rightarrow> pyval" where
  "content_of r = (case r of Plain v \<Rightarrow> v | Response c h \<Rightarrow> c)"

text \<open>
  Response validation of \<open>handle_http_v3\<close>: only a TypeSystemError of the return
  annotation is caught; it is logged and re-raised when the policy says so.
\<close>

definition validate_response_v3 ::
  "world \<Rightarrow> request \<Rightarrow> signature \<Rightarrow> retval \<Rightarrow> (exn + unit) \<times> effect list" where
  "validate_response_v3 w req sig response =
     (case return_annotation sig of
        None \<Rightarrow> (Inr (), [])
      | Some ann \<Rightarrow>
          (case ann (content_of response) of
             Inr _ \<Rightarrow> (Inr (), [])
           | Inl e \<Rightarrow>
               if isinstance e ''TypeSystemError'' then
                 (if should_raise_response_validation_errors w then Inl e else Inr (),
                  [LogWarning (req_method req) (req_path req)
                     (truncate_response (MAX_RESPONSE_LENGTH w)
                        (str_of w (content_of response))) e])
               else (Inl e, [])))"

definition shape_reply :: "request \<Rightarrow> retval \<Rightarrow> reply" where
  "shape_reply req response =
     (case response of
        Response c h \<Rightarrow> Reply3 c (status_for (req_method req)) h
      | Plain v \<Rightarrow> Reply2 v (status_for (req_method req)))"

text \<open>The body of the \<open>try\<close> of \<open>handle_http_v3\<close>.\<close>

definition v3_body ::
  "world \<Rightarrow> request \<Rightarrow> pyval list \<Rightarrow> pydict \<Rightarrow> logic_fn \<Rightarrow> (exn + reply) \<times> effect list" where
  "v3_body w req args kwargs lg =
     (case merged_params req lg kwargs of
        Inl e \<Rightarrow> (Inl e, [])
      | Inr params \<Rightarrow>
          (case check_required (invalid_value_bases w) (required (doctor_params lg)) params of
             Inl e \<Rightarrow> (Inl e, [])
           | Inr _ \<Rightarrow>
               (case coerce_params (parameters (doctor_signature lg)) params of
                  Inl e \<Rightarrow> (Inl e, [])
                | Inr params' \<Rightarrow>
                    (case call lg args params' of
                       Inl e \<Rightarrow> (Inl e, [LogicCalled args params'])
                     | Inr response \<Rightarrow>
                         (case validate_response_v3 w req (doctor_signature lg) response of
                            (Inl e, fx) \<Rightarrow> (Inl e, LogicCalled args params' # fx)
                          | (Inr _, fx) \<Rightarrow>
                              (Inr (shape_reply req response),
                               LogicCalled args params' # fx))))))"

text \<open>An exception of the body goes through the except clauses.\<close>

definition translate ::
  "(exn \<Rightarrow> escaping \<times> effect list) \<Rightarrow> (exn + reply) \<times> effect list
     \<Rightarrow> (escaping + reply) \<times> effect list" where
  "translate handler res =
     (case res of
        (Inr r, fx) \<Rightarrow> (Inr r, fx)
      | (Inl e, fx) \<Rightarrow> (case handler e of (out, fx') \<Rightarrow> (Inl out, fx @ fx')))"

definition handle_http_v3 ::
  "world \<Rightarrow> request \<Rightarrow> pyval list \<Rightarrow> pydict \<Rightarrow> logic_fn \<Rightarrow> string list option
     \<Rightarrow> (escaping + reply) \<times> effect list" where
  "handle_http_v3 w req args kwargs lg allowed_exceptions =
     translate (except_v3 (app_debug w) allowed_exceptions) (v3_body w req args kwargs lg)"


section \<open>The schema dispatcher\<close>

text \<open>Python truthiness, as \<open>if request_schema:\<close> tests it.\<close>

fun truthy :: "pyval \<Rightarrow> bool" where
  "truthy PNone = False"
| "truthy (PBool b) = b"
| "truthy (PInt i) = (i \<noteq> 0)"
| "truthy (PStr s) = (s \<noteq> [])"
| "truthy (PList xs) = (xs \<noteq> [])"
| "truthy (PDict d) = (d \<noteq> [])"

text \<open>
  The \<open>ResourceSchema\<close> instance a handler is bound to. \<open>_parse_params\<close> and
  \<open>validate\<close> belong to doctor.schema, outside the sources at hand: they are fields.
  A compiled validator is known by a name.
\<close>

type_synonym validator = string

record resource_schema =
  parse_params :: "pydict \<Rightarrow> pyval \<Rightarrow> exn + pyval"
  validate :: "pyval \<Rightarrow> validator \<Rightarrow> exn + unit"
  raise_response_validation_errors :: bool

text \<open>\<open>params.update(**kwargs)\<close> on whatever \<open>params\<close> is.\<close>

definition update :: "pyval \<Rightarrow> pydict \<Rightarrow> exn + pydict" where
  "update p kwargs =
     (case p of
        PDict d \<Rightarrow> Inr (dict_update d kwargs)
      | _ \<Rightarrow> Inl (AttributeError ''object has no attribute update''))"

text \<open>The parameters of \<open>handle_http\<close> when a request schema is declared.\<close>

definition http_params ::
  "resource_schema \<Rightarrow> request \<Rightarrow> pyval \<Rightarrow> pydict \<Rightarrow> exn + pydict" where
  "http_params schema req request_schema kwargs =
     (case (if json_request req then req_json req
            else parse_params schema (req_values req) request_schema) of
        Inl e \<Rightarrow> Inl e
      | Inr p \<Rightarrow> update p kwargs)"

definition validate_request ::
  "resource_schema \<Rightarrow> validator option \<Rightarrow> pydict \<Rightarrow> exn + unit" where
  "validate_request schema request_validator params =
     (case request_validator of
        None \<Rightarrow> Inr ()
      | Some rv \<Rightarrow> validate schema (PDict params) rv)"

text \<open>The keyword arguments \<open>exec_params\<close> receives.\<close>

definition http_call_params ::
  "resource_schema \<Rightarrow> request \<Rightarrow> pyval \<Rightarrow> validator option \<Rightarrow> pydict \<Rightarrow> exn + pydict" where
  "http_call_params schema req request_schema request_validator kwargs =
     (if truthy request_schema then
        (case http_params schema req request_schema kwargs of
           Inl e \<Rightarrow> Inl e
         | Inr params \<Rightarrow>
             (case validate_request schema request_validator params of
                Inl e \<Rightarrow> Inl e
              | Inr _ \<Rightarrow> Inr params))
      else Inr kwargs)"

text \<open>
  Response validation of \<open>handle_http\<close>: only a SchemaValidationError is caught; the
  logged text is that of the returned object, envelope included.
\<close>

definition validate_response_http ::
  "world \<Rightarrow> resource_schema \<Rightarrow> request \<Rightarrow> validator option \<Rightarrow> retval
     \<Rightarrow> (exn + unit) \<times> effect list" where
  "validate_response_http w schema req response_validator response =
     (case response_validator of
        None \<Rightarrow> (Inr (), [])
      | Some rv \<Rightarrow>
          (case validate schema (content_of response) rv of
             Inr _ \<Rightarrow> (Inr (), [])
           | Inl e \<Rightarrow>
               if isinstance e ''SchemaValidationError'' then
                 (if raise_response_validation_errors schema then Inl e else Inr (),
                  [LogWarning (req_method req) (req_path req)
                     (truncate_response (MAX_RESPONSE_LENGTH w) (text_type w response)) e])
               else (Inl e, [])))"

text \<open>
  The body of the \<open>try\<close> of \<open>handle_http\<close>. \<open>exec_params\<close> belongs to doctor.utils,
  outside the sources at hand: \<open>exec\<close> is \<open>exec_params\<close> applied to the logic function.
\<close>

definition http_body ::
  "world \<Rightarrow> resource_schema \<Rightarrow> request \<Rightarrow> pyval list \<Rightarrow> pydict
     \<Rightarrow> (pyval list \<Rightarrow> pydict \<Rightarrow> exn + retval) \<Rightarrow> pyval \<Rightarrow> validator option
     \<Rightarrow> validator option \<Rightarrow> (exn + reply) \<times> effect list" where
  "http_body w schema req args kwargs exec request_schema request_validator
       response_validator =
     (case http_call_params schema req request_schema request_validator kwargs of
        Inl e \<Rightarrow> (Inl e, [])
      | Inr params \<Rightarrow>
          (case exec args params of
             Inl e \<Rightarrow> (Inl e, [LogicCalled args params])
           | Inr response \<Rightarrow>
               (case validate_response_http w schema req response_validator response of
                  (Inl e, fx) \<Rightarrow> (Inl e, LogicCalled args params # fx)
                | (Inr _, fx) \<Rightarrow>
                    (Inr (shape_reply req response), LogicCalled args params # fx))))"

definition handle_http ::
  "world \<Rightarrow> resource_schema \<Rightarrow> request \<Rightarrow> pyval list \<Rightarrow> pydict
     \<Rightarrow> (pyval list \<Rightarrow> pydict \<Rightarrow> exn + retval) \<Rightarrow> pyval \<Rightarrow> validator option
     \<Rightarrow> validator option \<Rightarrow> string list option \<Rightarrow> (escaping + reply) \<times> effect list" where
  "handle_http w schema req args kwargs exec request_schema request_validator
       response_validator allowed_exceptions =
     translate (except_http (app_debug w) allowed_exceptions)
       (http_body w schema req args kwargs exec request_schema request_validator
          response_validator)"


section \<open>Route synthesis\<close>

text \<open>
  \<open>HTTPMethod\<close>: the verb as declared (\<open>delete\<close>, \<open>get\<close>, \<open>post\<close>, \<open>put\<close> pass it in
  lower case), the logic function, the allowed exceptions and the title.
\<close>

record HTTPMethod =
  method_name :: string
  method_logic :: logic_fn
  method_allowed_exceptions :: "string list option"
  method_title :: "string option"

definition get :: "logic_fn \<Rightarrow> string list option \<Rightarrow> string option \<Rightarrow> HTTPMethod" where
  "get func allowed_exceptions title =
     \<lparr>method_name = ''get'', method_logic = func,
      method_allowed_exceptions = allowed_exceptions, method_title = title\<rparr>"

definition post :: "logic_fn \<Rightarrow> string list option \<Rightarrow> string option \<Rightarrow> HTTPMethod" where
  "post func allowed_exceptions title =
     \<lparr>method_name = ''post'', method_logic = func,
      method_allowed_exceptions = allowed_exceptions, method_title = title\<rparr>"

definition put :: "logic_fn \<Rightarrow> string list option \<Rightarrow> string option \<Rightarrow> HTTPMethod" where
  "put func allowed_exceptions title =
     \<lparr>method_name = ''put'', method_logic = func,
      method_allowed_exceptions = allowed_exceptions, method_title = title\<rparr>"

definition delete :: "logic_fn \<Rightarrow> string list option \<Rightarrow> string option \<Rightarrow> HTTPMethod" where
  "delete func allowed_exceptions title =
     \<lparr>method_name = ''delete'', method_logic = func,
      method_allowed_exceptions = allowed_exceptions, method_title = title\<rparr>"

text \<open>
  The \<open>methods\<close> attribute of a type, as \<open>create_routes\<close> meets it: absent, so
  that \<open>hasattr\<close> is false; present with a value that has no \<open>append\<close> (None, which a
  Flask view type inherits when Flask collected no verb for it; a set or a tuple would
  do the same); or a list.
\<close>

datatype methods_attr = NoAttribute | NotAList | MethodList "string list"

text \<open>
  A base handler class belongs to the framework. What route synthesis needs of it is
  its name and the \<open>methods\<close> attribute of a type freshly made from it with a class
  dict that defines one verb; a list there is the new type's own, as the one Flask's
  MethodView computes at class creation is.
\<close>

record base_class =
  base_name :: string
  methods_at_creation :: "string \<Rightarrow> methods_attr"

record Route =
  route :: string
  methods :: "HTTPMethod list"
  heading :: "string option"
  base_handler_class :: base_class
  handler_name :: "string option"

text \<open>
  The closure \<open>fn\<close> that \<open>create_http_method\<close> returns: it captures the logic function
  and nothing else.
\<close>

datatype http_func = Fn logic_fn

definition create_http_method :: "logic_fn \<Rightarrow> string \<Rightarrow> http_func" where
  "create_http_method lg http_method = Fn lg"

text \<open>An attribute of a handler type.\<close>

datatype attribute = NameAttr string | HeadingAttr "string option" | Callable http_func

text \<open>
  A handler type: the name and the base given to \<open>type\<close>, its attributes, and its
  \<open>methods\<close> attribute.
\<close>

record handler_type =
  type_name :: string
  type_base :: base_class
  type_attrs :: "(string \<times> attribute) list"
  type_methods :: methods_attr

text \<open>\<open>str.upper\<close> on ASCII letters.\<close>

definition upper_char :: "char \<Rightarrow> char" where
  "upper_char c =
     (case map_of (zip ''abcdefghijklmnopqrstuvwxyz'' ''ABCDEFGHIJKLMNOPQRSTUVWXYZ'') c of
        Some u \<Rightarrow> u
      | None \<Rightarrow> c)"

definition upper :: "string \<Rightarrow> string" where
  "upper s = map upper_char s"

text \<open>\<open>r.handler_name or logic.__name__\<close>: None and the empty string are falsy.\<close>

definition handler_name_or :: "Route \<Rightarrow> logic_fn \<Rightarrow> string" where
  "handler_name_or r lg =
     (case handler_name r of
        None \<Rightarrow> logic_name lg
      | Some n \<Rightarrow> if n = [] then logic_name lg else n)"

text \<open>
  One turn of the inner loop of \<open>create_routes\<close>: the first method makes the type;
  each later one is set on it and, if the type has a \<open>methods\<close> attribute, appended
  to it in upper case, which raises AttributeError when the attribute is no list.
\<close>

definition add_method ::
  "Route \<Rightarrow> HTTPMethod \<Rightarrow> handler_type option \<Rightarrow> exn + handler_type option" where
  "add_method r m handler =
     (let lg = method_logic m;
          http_method = method_name m;
          http_func = create_http_method lg http_method;
          name = handler_name_or r lg
      in case handler of
           None \<Rightarrow>
             Inr (Some \<lparr>type_name = name, type_base = base_handler_class r,
                   type_attrs =
                     dict_set
                       (dict_set (dict_set [] ''__name__'' (NameAttr name))
                          ''_doctor_heading'' (HeadingAttr (heading r)))
                       http_method (Callable http_func),
                   type_methods = methods_at_creation (base_handler_class r) http_method\<rparr>)
         | Some h \<Rightarrow>
             (case type_methods h of
                NoAttribute \<Rightarrow>
                  Inr (Some (h\<lparr>type_attrs :=
                                dict_set (type_attrs h) http_method (Callable http_func)\<rparr>))
              | NotAList \<Rightarrow> Inl (AttributeError ''object has no attribute append'')
              | MethodList ms \<Rightarrow>
                  Inr (Some (h\<lparr>type_attrs :=
                                dict_set (type_attrs h) http_method (Callable http_func),
                              type_methods := MethodList (ms @ [upper http_method])\<rparr>))))"

text \<open>The inner loop, which an exception leaves.\<close>

fun add_methods ::
  "Route \<Rightarrow> HTTPMethod list \<Rightarrow> handler_type option \<Rightarrow> exn + handler_type option" where
  "add_methods r [] handler = Inr handler"
| "add_methods r (m # ms) handler =
     (case add_method r m handler of
        Inl e \<Rightarrow> Inl e
      | Inr handler' \<Rightarrow> add_methods r ms handler')"

definition create_handler :: "Route \<Rightarrow> exn + handler_type option" where
  "create_handler r = add_methods r (methods r) None"

text \<open>The outer loop: an exception leaves \<open>create_routes\<close> and nothing is returned.\<close>

fun create_routes :: "Route list \<Rightarrow> exn + (string \<times> handler_type option) list" where
  "create_routes [] = Inr []"
| "create_routes (r # rs) =
     (case create_handler r of
        Inl e \<Rightarrow> Inl e
      | Inr handler \<Rightarrow>
          (case create_routes rs of
             Inl e \<Rightarrow> Inl e
           | Inr created \<Rightarrow> Inr ((route r, handler) # created)))"

section \<open>Calling a synthesized handler\<close>

text \<open>The positional arguments a synthesized callable passes on.\<close>

datatype argument =
    HandlerArg string
  | ArgsArg "pyval list"
  | KwargsArg pydict
  | LogicArg logic_fn

text \<open>
  A call with positional arguments only, of a function whose parameters have no
  defaults: the arguments must be as many as the parameters, or TypeError is raised
  before the body runs (its message is abridged here); otherwise the body runs on the
  bound parameters.
\<close>

definition call_positional ::
  "string list \<Rightarrow> argument list \<Rightarrow> ((string \<times> argument) list \<Rightarrow> 'r) \<Rightarrow> exn + 'r" where
  "call_positional names actuals body =
     (if length actuals > length names then
        Inl (TypeError ''too many positional arguments'')
      else if length actuals < length names then
        Inl (TypeError ''missing required positional arguments'')
      else Inr (body (zip names actuals)))"

text \<open>The parameters \<open>doctor.flask.handle_http\<close> declares.\<close>

definition handle_http_parameters :: "string list" where
  "handle_http_parameters =
     [''schema'', ''handler'', ''args'', ''kwargs'', ''logic'', ''request_schema'',
      ''request_validator'', ''response_validator'', ''allowed_exceptions'']"

text \<open>
  \<open>fn(handler, *args, **kwargs)\<close>, whose body is
  \<open>return handle_http(handler, args, kwargs, logic)\<close> with the \<open>handle_http\<close> that
  doctor.routing imports from doctor.flask; \<open>body\<close> is the body of that function.
\<close>

fun invoke ::
  "((string \<times> argument) list \<Rightarrow> 'r) \<Rightarrow> http_func \<Rightarrow> string \<Rightarrow> pyval list \<Rightarrow> pydict
     \<Rightarrow> exn + 'r" where
  "invoke body (Fn lg) handler args kwargs =
     call_positional handle_http_parameters
       [HandlerArg handler, ArgsArg args, KwargsArg kwargs, LogicArg lg] body"

section \<open>Signature introspection\<close>

text \<open>
  A parameter of a signature: its name, whether its annotation is a recognized
  validating type, and whether it has a default value.
\<close>

record parameter =
  param_name :: string
  validating :: bool
  has_default :: bool

text \<open>
  A callable as introspection sees it: a function with its own parameter list, a
  wrapping layer around another callable, or something with no recognized signature.
\<close>

datatype callable =
    Function "parameter list"
  | Wrapper callable
  | Opaque

text \<open>Following the wrapped-target relation until no further layer is found.\<close>

fun real_signature :: "callable \<Rightarrow> parameter list option" where
  "real_signature (Function ps) = Some ps"
| "real_signature (Wrapper f) = real_signature f"
| "real_signature Opaque = None"

text \<open>
  Modelled from the spec: \<open>get_params_from_func\<close> of doctor.utils, which is not among
  the sources (the tests call it). The spec's \<open>resolve\<close>: \<open>all\<close> is the ordered names of
  the real signature; \<open>required\<close> the names with a validating type and no default;
  \<open>optional\<close> the names with a default; \<open>logic\<close> the names passed to the call, which
  the tests show equal to \<open>all\<close>, also for a decorated function; and with no recognized
  signature all four are empty.
\<close>

definition get_params_from_func :: "callable \<Rightarrow> Params" where
  "get_params_from_func func =
     (case real_signature func of
        None \<Rightarrow> \<lparr>all = [], required = [], optional = [], logic = []\<rparr>
      | Some ps \<Rightarrow>
          \<lparr>all = map param_name ps,
           required = map param_name (filter (\<lambda>p. validating p \<and> \<not> has_default p) ps),
           optional = map param_name (filter has_default ps),
           logic = map param_name ps\<rparr>)"

section \<open>The specification's wording\<close>

subsection \<open>The status table\<close>

text \<open>
  A handler result raises an HTTP exception of a given status code, description and
  error detail.
\<close>

definition raises_http ::
  "(escaping + reply) \<times> effect list \<Rightarrow> nat \<Rightarrow> description
     \<Rightarrow> (string \<times> string) list option \<Rightarrow> bool" where
  "raises_http res code d errobj =
     (case fst res of
        Inl (Http h) \<Rightarrow>
          http_code (http_cls h) = code \<and> http_description h = d \<and> http_errobj h = errobj
      | _ \<Rightarrow> False)"

text \<open>
  The rows of the table below the 400 row, in precedence order: \<open>e\<close> escaped the body
  after the effects \<open>fx\<close>, and \<open>r\<close> is the handler's result.
\<close>

definition lower_rows ::
  "bool \<Rightarrow> string list option \<Rightarrow> exn \<Rightarrow> effect list
     \<Rightarrow> (escaping + reply) \<times> effect list \<Rightarrow> bool" where
  "lower_rows debug allowed e fx r =
     ((isinstance e ''UnauthorizedError'' \<longrightarrow>
         raises_http r 401 (FromException e) None \<and> snd r = fx)
    \<and> (\<not> isinstance e ''UnauthorizedError'' \<and> isinstance e ''ForbiddenError'' \<longrightarrow>
         raises_http r 403 (FromException e) None \<and> snd r = fx)
    \<and> (\<not> isinstance e ''UnauthorizedError'' \<and> \<not> isinstance e ''ForbiddenError''
         \<and> isinstance e ''NotFoundError'' \<longrightarrow>
         raises_http r 404 (FromException e) None \<and> snd r = fx)
    \<and> (\<not> isinstance e ''UnauthorizedError'' \<and> \<not> isinstance e ''ForbiddenError''
         \<and> \<not> isinstance e ''NotFoundError'' \<and> isinstance e ''ImmutableError'' \<longrightarrow>
         raises_http r 409 (FromException e) None \<and> snd r = fx)
    \<and> (\<not> isinstance e ''UnauthorizedError'' \<and> \<not> isinstance e ''ForbiddenError''
         \<and> \<not> isinstance e ''NotFoundError'' \<and> \<not> isinstance e ''ImmutableError''
         \<and> isinstance e ''Exception'' \<and> \<not> debug \<and> \<not> allowed_match allowed e \<longrightarrow>
         raises_http r 500 (Text ''Uncaught error in logic function'') None
         \<and> snd r = fx @ [LogException e]))"

text \<open>The classes the five named except clauses of each handler catch.\<close>

definition named_v3 :: "exn \<Rightarrow> bool" where
  "named_v3 e =
     list_ex (isinstance e)
       [''InvalidValueError'', ''TypeSystemError'', ''UnauthorizedError'',
        ''ForbiddenError'', ''NotFoundError'', ''ImmutableError'']"

definition named_http :: "exn \<Rightarrow> bool" where
  "named_http e =
     list_ex (isinstance e)
       [''InvalidValueError'', ''ParseError'', ''SchemaValidationError'',
        ''UnauthorizedError'', ''ForbiddenError'', ''NotFoundError'', ''ImmutableError'']"

text \<open>
  The status mapped for an exception of a named kind, by first match, given the classes
  of the handler's 400 row; and its error detail, which only the 400 row attaches.
\<close>

definition mapped_code :: "string list \<Rightarrow> exn \<Rightarrow> nat" where
  "mapped_code bad_request e =
     (if list_ex (isinstance e) bad_request then 400
      else if isinstance e ''UnauthorizedError'' then 401
      else if isinstance e ''ForbiddenError'' then 403
      else if isinstance e ''NotFoundError'' then 404
      else 409)"

definition mapped_detail :: "string list \<Rightarrow> exn \<Rightarrow> (string \<times> string) list option" where
  "mapped_detail bad_request e =
     (if list_ex (isinstance e) bad_request then exc_errors e else None)"

subsection \<open>The handler of a route\<close>

text \<open>
  What the specification asks of the handler built for a route, given the framework's
  base class: no handler for a route without methods; otherwise a type on the route's
  base, named by a non-empty \<open>handler_name\<close> or else by the first logic function, with
  a callable for each declared verb (closing over the logic function of the last
  binding of that verb), and whose \<open>methods\<close> attribute, when it is a list, is
  extended by the upper-cased verbs after the first, in declaration order, and is
  otherwise as the type was created with.
\<close>

definition handler_as_specified :: "Route \<Rightarrow> handler_type option \<Rightarrow> bool" where
  "handler_as_specified r handler =
     (case methods r of
        [] \<Rightarrow> handler = None
      | m # ms \<Rightarrow>
          (case handler of
             None \<Rightarrow> False
           | Some t \<Rightarrow>
               type_base t = base_handler_class r
             \<and> type_name t =
                 (case handler_name r of
                    None \<Rightarrow> logic_name (method_logic m)
                  | Some n \<Rightarrow> if n = [] then logic_name (method_logic m) else n)
             \<and> (\<forall>b \<in> set (m # ms).
                   map_of (type_attrs t) (method_name b) =
                     Some (Callable (Fn (method_logic
                       (last (filter (\<lambda>x. method_name x = method_name b) (m # ms)))))))
             \<and> type_methods t =
                 (case methods_at_creation (base_handler_class r) (method_name m) of
                    MethodList ms0 \<Rightarrow> MethodList (ms0 @ map (\<lambda>b. upper (method_name b)) ms)
                  | other \<Rightarrow> other)))"

text \<open>
  No later verb of the route meets a \<open>methods\<close> attribute that is present without
  being a list.
\<close>

definition appends_to_lists_only :: "Route \<Rightarrow> bool" where
  "appends_to_lists_only r =
     (case methods r of
        m # m' # ms \<Rightarrow>
          methods_at_creation (base_handler_class r) (method_name m) \<noteq> NotAList
      | _ \<Rightarrow> True)"

section \<open>Example inputs\<close>

definition example_world :: world where
  "example_world =
     \<lparr>app_debug = False, environ_raise = None, MAX_RESPONSE_LENGTH = 8,
      str_of = (\<lambda>v. case v of PStr s \<Rightarrow> s | _ \<Rightarrow> ''?''),
      text_type = (\<lambda>r. case r of Plain (PStr s) \<Rightarrow> s | _ \<Rightarrow> ''<Response>''),
      invalid_value_bases = [''Exception'', ''BaseException'', ''object'']\<rparr>"

definition example_get :: request where
  "example_get =
     \<lparr>req_mimetype = [], req_method = ''GET'', req_path = ''/foo'',
      req_json = Inr PNone, req_values = []\<rparr>"

text \<open>
  A ParseError, a TypeSystemError and an UnauthorizedError, each of no other named kind.
\<close>

definition example_parse_error :: exn where
  "example_parse_error =
     \<lparr>exc_class = ''ParseError'', exc_bases = [''Exception'', ''BaseException'', ''object''],
      exc_message = ''bad json'', exc_errors = None\<rparr>"

definition example_type_error :: exn where
  "example_type_error =
     \<lparr>exc_class = ''TypeSystemError'',
      exc_bases = [''Exception'', ''BaseException'', ''object''],
      exc_message = ''Must be a string'', exc_errors = Some [(''name'', ''Must be a string'')]\<rparr>"

definition example_unauthorized_error :: exn where
  "example_unauthorized_error =
     \<lparr>exc_class = ''UnauthorizedError'',
      exc_bases = [''Exception'', ''BaseException'', ''object''],
      exc_message = ''no token'', exc_errors = None\<rparr>"

text \<open>
  Calling a Python function whose parameters are \<open>names\<close> (those in \<open>defaults\<close>
  have a default, and there is neither \<open>*args\<close> nor \<open>**kwargs\<close>) with positional
  and keyword arguments: TypeError (its message abridged) when the arguments do not
  bind to the parameters, else what the body does.
\<close>

definition call_function ::
  "string list \<Rightarrow> string list \<Rightarrow> (exn + retval) \<Rightarrow> pyval list \<Rightarrow> pydict \<Rightarrow> exn + retval" where
  "call_function names defaults body args kw =
     (if length names < length args then
        Inl (TypeError ''too many positional arguments'')
      else if list_ex (\<lambda>k. k \<notin> set names) (map fst kw) then
        Inl (TypeError ''unexpected keyword argument'')
      else if list_ex (\<lambda>k. k \<in> set (take (length args) names)) (map fst kw) then
        Inl (TypeError ''multiple values for argument'')
      else if list_ex (\<lambda>n. n \<notin> set (map fst kw) \<and> n \<notin> set defaults)
                (drop (length args) names) then
        Inl (TypeError ''missing required argument'')
      else body)"

text \<open>\<open>def no_params() -> Foo\<close> of the tests, with a body that raises or returns.\<close>

definition no_params :: "(exn + retval) \<Rightarrow> annotation option \<Rightarrow> logic_fn" where
  "no_params outcome ret =
     \<lparr>logic_name = ''no_params'',
      doctor_params = \<lparr>all = [], required = [], optional = [], logic = []\<rparr>,
      doctor_signature = \<lparr>parameters = [], return_annotation = ret\<rparr>,
      call = call_function [] [] outcome\<rparr>"

text \<open>
  A resource schema whose parser hands the flat values on as a dict and whose validator
  accepts everything, and one whose validator rejects every response.
\<close>

definition example_schema :: resource_schema where
  "example_schema =
     \<lparr>parse_params = (\<lambda>vals request_schema. Inr (PDict vals)),
      validate = (\<lambda>v rv. Inr ()),
      raise_response_validation_errors = False\<rparr>"

text \<open>
  The types of the tests: \<open>Name = string('name', min_length=1)\<close> and
  \<open>Foo = string('foo')\<close>, as the callables they are.
\<close>

definition type_system_error :: "string \<Rightarrow> exn" where
  "type_system_error msg =
     \<lparr>exc_class = ''TypeSystemError'',
      exc_bases = [''Exception'', ''BaseException'', ''object''],
      exc_message = msg, exc_errors = None\<rparr>"

definition Name :: annotation where
  "Name v =
     (case v of
        PStr s \<Rightarrow> if length s < 1 then Inl (type_system_error ''Must have at least 1 characters.'')
                  else Inr (PStr s)
      | _ \<Rightarrow> Inl (type_system_error ''Must be a string.''))"

definition Foo :: annotation where
  "Foo v = (case v of PStr s \<Rightarrow> Inr (PStr s) | _ \<Rightarrow> Inl (type_system_error ''Must be a string.''))"

text \<open>\<open>def create_foo(name: Name) -> Foo\<close> of the tests, returning a given value.\<close>

definition create_foo :: "retval \<Rightarrow> logic_fn" where
  "create_foo result =
     \<lparr>logic_name = ''create_foo'',
      doctor_params = \<lparr>all = [''name''], required = [''name''], optional = [],
                       logic = [''name'']\<rparr>,
      doctor_signature = \<lparr>parameters = [(''name'', Name)], return_annotation = Some Foo\<rparr>,
      call = call_function [''name''] [] (Inr result)\<rparr>"

text \<open>A JSON request of a given verb and body, with a given query string.\<close>

definition example_json :: "string \<Rightarrow> pyval \<Rightarrow> pydict \<Rightarrow> request" where
  "example_json verb body query =
     \<lparr>req_mimetype = ''application/json'', req_method = verb, req_path = ''/foo'',
      req_json = Inr body, req_values = query\<rparr>"

text \<open>\<open>FooId = integer('foo id')\<close> of the tests.\<close>

definition FooId :: annotation where
  "FooId v = (case v of PInt i \<Rightarrow> Inr (PInt i) | _ \<Rightarrow> Inl (type_system_error ''Must be a number.''))"

text \<open>A schema whose validator rejects every document with a SchemaValidationError.\<close>

definition schema_validation_error :: exn where
  "schema_validation_error =
     \<lparr>exc_class = ''SchemaValidationError'',
      exc_bases = [''Exception'', ''BaseException'', ''object''],
      exc_message = ''does not validate'', exc_errors = None\<rparr>"

definition rejecting_schema :: "bool \<Rightarrow> resource_schema" where
  "rejecting_schema flag =
     \<lparr>parse_params = (\<lambda>vals request_schema. Inr (PDict vals)),
      validate = (\<lambda>v rv. Inl schema_validation_error),
      raise_response_validation_errors = flag\<rparr>"

text \<open>
  Example routes. \<open>MyHandler\<close> is a Flask resource class: a type made from it gets a
  \<open>methods\<close> list of its own holding the verb its class dict defines, if that is one
  of the verbs Flask collects, and inherits \<open>methods = None\<close> otherwise.
  \<open>PlainBase\<close> is a class without a \<open>methods\<close> attribute.
\<close>

definition http_method_funcs :: "string list" where
  "http_method_funcs =
     [''get'', ''post'', ''head'', ''options'', ''delete'', ''put'', ''trace'', ''patch'']"

definition MyHandler :: base_class where
  "MyHandler =
     \<lparr>base_name = ''MyHandler'',
      methods_at_creation =
        (\<lambda>verb. if verb \<in> set http_method_funcs then MethodList [upper verb] else NotAList)\<rparr>"


text \<open>A route whose first verb Flask does not collect, followed by a second verb.\<close>

definition frob_routes :: "Route list" where
  "frob_routes =
     [\<lparr>route = ''^/frob/?$'',
       methods = [\<lparr>method_name = ''frob'',
                   method_logic = no_params (Inr (Plain (PStr []))) None,
                   method_allowed_exceptions = None, method_title = None\<rparr>,
                  get (no_params (Inr (Plain (PStr []))) None) None None],
       heading = None, base_handler_class = MyHandler, handler_name = None\<rparr>]"

definition foo_routes :: "base_class \<Rightarrow> Route list" where
  "foo_routes base =
     [\<lparr>route = ''^/foo/?$'',
       methods = [get (no_params (Inr (Plain (PStr []))) None) None None,
                  post (create_foo (Plain (PStr []))) None None],
       heading = None, base_handler_class = base, handler_name = Some ''MyHandler''\<rparr>,
      \<lparr>route = ''^/bar/?$'', methods = [],
       heading = None, base_handler_class = base, handler_name = None\<rparr>]"

text \<open>
  The functions of the tests: \<open>get_foo(name: Name, age: Age, is_alive: IsAlive=True)\<close>,
  and \<open>decorated_func(extra: str, name: Name, is_alive: IsAlive=True)\<close> under the
  decorator \<open>pass_pos_param\<close>, which supplies \<open>extra\<close>.
\<close>

definition get_foo :: callable where
  "get_foo =
     Function
       [\<lparr>param_name = ''name'', validating = True, has_default = False\<rparr>,
        \<lparr>param_name = ''age'', validating = True, has_default = False\<rparr>,
        \<lparr>param_name = ''is_alive'', validating = True, has_default = True\<rparr>]"

definition decorated_func :: callable where
  "decorated_func =
     Wrapper (Function
       [\<lparr>param_name = ''extra'', validating = False, has_default = False\<rparr>,
        \<lparr>param_name = ''name'', validating = True, has_default = False\<rparr>,
        \<lparr>param_name = ''is_alive'', validating = True, has_default = True\<rparr>])"

lemma isinstance_own_class: "isinstance e (exc_class e)"
  by (simp add: isinstance_def)

section \<open>Exception translation: the status table\<close>

lemma translate_Inl: "translate h (Inl e, fx) = (Inl (fst (h e)), fx @ snd (h e))"
  by (simp add: translate_def split: prod.splits)

lemma translate_Inr: "translate h (Inr r, fx) = (Inr r, fx)"
  by (simp add: translate_def)

lemma lower_rows_chain:
  "lower_rows debug allowed e fx
     (Inl (fst (except_auth_chain (catch_all debug allowed) e)),
      fx @ snd (except_auth_chain (catch_all debug allowed) e))"
  by (simp add: lower_rows_def except_auth_chain_def catch_all_def wrap_http_def
      raises_http_def SchematicHTTPException_def)

lemma example_v3_raises:
  "v3_body w example_get [] [] (no_params (Inl e) None)
     = (Inl e, [LogicCalled [] []])"
  by (simp add: v3_body_def merged_params_def request_params_def json_request_def
      example_get_def no_params_def call_function_def dict_update_def dict_of_items_def)

lemma example_http_raises:
  "http_body w example_schema example_get [] [] (\<lambda>args kw. Inl e) PNone None None
     = (Inl e, [LogicCalled [] []])"
  by (simp add: http_body_def http_call_params_def)

text \<open>
  C1, as amended. An exception \<open>e\<close> that escapes the body of a handler is translated by
  the first matching row. In \<open>handle_http_v3\<close> the 400 row holds invalid-value and
  type-system errors; in \<open>handle_http\<close> it holds invalid-value, parse and
  schema-validation errors; the 400 exception carries \<open>e\<close> and its \<open>errors\<close> payload.
  Below it, in this order: unauthorized 401, forbidden 403, not-found 404, immutable 409,
  and any other instance of Exception, with debug off and no allowed-exceptions match,
  500 with the fixed message, the original exception being logged and absent from what
  is raised.
\<close>

theorem exception_status_table:
  "(v3_body w req args kwargs lg = (Inl e, fx) \<longrightarrow>
      (isinstance e ''InvalidValueError'' \<or> isinstance e ''TypeSystemError'' \<longrightarrow>
         raises_http (handle_http_v3 w req args kwargs lg allowed) 400
           (FromException e) (exc_errors e)
         \<and> snd (handle_http_v3 w req args kwargs lg allowed) = fx)
    \<and> (\<not> isinstance e ''InvalidValueError'' \<and> \<not> isinstance e ''TypeSystemError'' \<longrightarrow>
         lower_rows (app_debug w) allowed e fx (handle_http_v3 w req args kwargs lg allowed)))
 \<and> (http_body w schema req args kwargs exec rs rv pv = (Inl e, fx) \<longrightarrow>
      (isinstance e ''InvalidValueError'' \<or> isinstance e ''ParseError''
         \<or> isinstance e ''SchemaValidationError'' \<longrightarrow>
         raises_http (handle_http w schema req args kwargs exec rs rv pv allowed) 400
           (FromException e) (exc_errors e)
         \<and> snd (handle_http w schema req args kwargs exec rs rv pv allowed) = fx)
    \<and> (\<not> isinstance e ''InvalidValueError'' \<and> \<not> isinstance e ''ParseError''
         \<and> \<not> isinstance e ''SchemaValidationError'' \<longrightarrow>
         lower_rows (app_debug w) allowed e fx
           (handle_http w schema req args kwargs exec rs rv pv allowed)))"
proof (intro conjI impI)
  assume b: "v3_body w req args kwargs lg = (Inl e, fx)"
  assume k: "isinstance e ''InvalidValueError'' \<or> isinstance e ''TypeSystemError''"
  have r: "handle_http_v3 w req args kwargs lg allowed =
      (Inl (Http (SchematicHTTPException HTTP400Exception (FromException e) (exc_errors e))),
       fx)"
    using b k by (simp add: handle_http_v3_def translate_Inl except_v3_def)
  show "raises_http (handle_http_v3 w req args kwargs lg allowed) 400
          (FromException e) (exc_errors e)"
    by (simp add: r raises_http_def SchematicHTTPException_def)
  show "snd (handle_http_v3 w req args kwargs lg allowed) = fx"
    by (simp add: r)
next
  assume b: "v3_body w req args kwargs lg = (Inl e, fx)"
  assume k: "\<not> isinstance e ''InvalidValueError'' \<and> \<not> isinstance e ''TypeSystemError''"
  have "handle_http_v3 w req args kwargs lg allowed =
      (Inl (fst (except_auth_chain (catch_all (app_debug w) allowed) e)),
       fx @ snd (except_auth_chain (catch_all (app_debug w) allowed) e))"
    using b k by (simp add: handle_http_v3_def translate_Inl except_v3_def)
  then show "lower_rows (app_debug w) allowed e fx
               (handle_http_v3 w req args kwargs lg allowed)"
    by (simp add: lower_rows_chain)
next
  assume b: "http_body w schema req args kwargs exec rs rv pv = (Inl e, fx)"
  assume k: "isinstance e ''InvalidValueError'' \<or> isinstance e ''ParseError''
         \<or> isinstance e ''SchemaValidationError''"
  have r: "handle_http w schema req args kwargs exec rs rv pv allowed =
      (Inl (Http (SchematicHTTPException HTTP400Exception (FromException e) (exc_errors e))),
       fx)"
    using b k by (simp add: handle_http_def translate_Inl except_http_def)
  show "raises_http (handle_http w schema req args kwargs exec rs rv pv allowed) 400
          (FromException e) (exc_errors e)"
    by (simp add: r raises_http_def SchematicHTTPException_def)
  show "snd (handle_http w schema req args kwargs exec rs rv pv allowed) = fx"
    by (simp add: r)
next
  assume b: "http_body w schema req args kwargs exec rs rv pv = (Inl e, fx)"
  assume k: "\<not> isinstance e ''InvalidValueError'' \<and> \<not> isinstance e ''ParseError''
         \<and> \<not> isinstance e ''SchemaValidationError''"
  have "handle_http w schema req args kwargs exec rs rv pv allowed =
      (Inl (fst (except_auth_chain (catch_all (app_debug w) allowed) e)),
       fx @ snd (except_auth_chain (catch_all (app_debug w) allowed) e))"
    using b k by (simp add: handle_http_def translate_Inl except_http_def)
  then show "lower_rows (app_debug w) allowed e fx
               (handle_http w schema req args kwargs exec rs rv pv allowed)"
    by (simp add: lower_rows_chain)
qed

text \<open>
  The table at work: a TypeSystemError of the logic function leaves \<open>handle_http_v3\<close>
  as a 400 with its field detail, and a ParseError leaves \<open>handle_http\<close> as a 400.
\<close>

theorem exception_status_table_witness:
  "raises_http
     (handle_http_v3 example_world example_get [] []
        (no_params (Inl example_type_error) None) None)
     400 (FromException example_type_error) (Some [(''name'', ''Must be a string'')])
   \<and> raises_http
       (handle_http example_world example_schema example_get [] []
          (\<lambda>args kw. Inl example_parse_error) PNone None None None)
       400 (FromException example_parse_error) None"
proof -
  have t: "isinstance example_type_error ''TypeSystemError''"
    by (simp add: isinstance_def example_type_error_def)
  have p: "isinstance example_parse_error ''ParseError''"
    by (simp add: isinstance_def example_parse_error_def)
  have et: "exc_errors example_type_error = Some [(''name'', ''Must be a string'')]"
    by (simp add: example_type_error_def)
  have ep: "exc_errors example_parse_error = None"
    by (simp add: example_parse_error_def)
  note tab = exception_status_table
    [where w = example_world and req = example_get and args = "[]" and kwargs = "[]"
       and fx = "[LogicCalled [] []]" and allowed = None and schema = example_schema
       and rs = PNone and rv = None and pv = None]
  have "raises_http
     (handle_http_v3 example_world example_get [] []
        (no_params (Inl example_type_error) None) None)
     400 (FromException example_type_error) (exc_errors example_type_error)"
    using tab [where e = example_type_error and lg = "no_params (Inl example_type_error) None"]
      example_v3_raises [of example_world example_type_error] t by blast
  moreover have "raises_http
       (handle_http example_world example_schema example_get [] []
          (\<lambda>args kw. Inl example_parse_error) PNone None None None)
       400 (FromException example_parse_error) (exc_errors example_parse_error)"
    using tab [where e = example_parse_error and exec = "\<lambda>args kw. Inl example_parse_error"]
      example_http_raises [of example_world example_parse_error] p by blast
  ultimately show ?thesis by (simp add: et ep)
qed

text \<open>
  The claim as worded fails in type-annotation mode: a ParseError that escapes the body
  of \<open>handle_http_v3\<close> matches none of its named clauses and, with debug off and no
  allowed exceptions, becomes a 500.
\<close>

theorem parse_error_v3_is_500:
  "isinstance example_parse_error ''ParseError''
   \<and> v3_body example_world example_get [] [] (no_params (Inl example_parse_error) None)
       = (Inl example_parse_error, [LogicCalled [] []])
   \<and> raises_http
       (handle_http_v3 example_world example_get [] []
          (no_params (Inl example_parse_error) None) None)
       500 (Text ''Uncaught error in logic function'') None"
proof -
  have "handle_http_v3 example_world example_get [] []
          (no_params (Inl example_parse_error) None) None
        = (Inl (fst (except_v3 False None example_parse_error)),
           [LogicCalled [] []] @ snd (except_v3 False None example_parse_error))"
    unfolding handle_http_v3_def example_v3_raises translate_Inl
    by (simp add: example_world_def)
  moreover have "except_v3 False None example_parse_error
        = (Http (SchematicHTTPException HTTP500Exception
                   (Text ''Uncaught error in logic function'') None),
           [LogException example_parse_error])"
    by (simp add: isinstance_def example_parse_error_def except_v3_def
        except_auth_chain_def catch_all_def allowed_match_def)
  moreover have "isinstance example_parse_error ''ParseError''"
    by (simp add: isinstance_def example_parse_error_def)
  ultimately show ?thesis
    by (simp add: example_v3_raises raises_http_def SchematicHTTPException_def)
qed

section \<open>The escape hatches\<close>

lemma named_v3_iff:
  "named_v3 e \<longleftrightarrow>
     isinstance e ''InvalidValueError'' \<or> isinstance e ''TypeSystemError''
     \<or> isinstance e ''UnauthorizedError'' \<or> isinstance e ''ForbiddenError''
     \<or> isinstance e ''NotFoundError'' \<or> isinstance e ''ImmutableError''"
  by (simp add: named_v3_def)

lemma named_http_iff:
  "named_http e \<longleftrightarrow>
     isinstance e ''InvalidValueError'' \<or> isinstance e ''ParseError''
     \<or> isinstance e ''SchemaValidationError''
     \<or> isinstance e ''UnauthorizedError'' \<or> isinstance e ''ForbiddenError''
     \<or> isinstance e ''NotFoundError'' \<or> isinstance e ''ImmutableError''"
  by (simp add: named_http_def)

lemma catch_all_reraises:
  "debug \<or> (\<exists>clss. allowed = Some clss \<and> exc_class e \<in> set clss)
     \<Longrightarrow> catch_all debug allowed e = (Original e, [])"
  by (auto simp: catch_all_def allowed_match_def list_ex_iff isinstance_def)

lemma except_v3_unnamed:
  "\<not> named_v3 e \<Longrightarrow> except_v3 debug allowed e = catch_all debug allowed e"
  by (simp add: named_v3_iff except_v3_def except_auth_chain_def)

lemma except_http_unnamed:
  "\<not> named_http e \<Longrightarrow> except_http debug allowed e = catch_all debug allowed e"
  by (simp add: named_http_iff except_http_def except_auth_chain_def)

lemma except_v3_named:
  "named_v3 e \<Longrightarrow>
     except_v3 debug allowed e
       = (Http (SchematicHTTPException
                  (case mapped_code [''InvalidValueError'', ''TypeSystemError''] e of
                     n \<Rightarrow> if n = 400 then HTTP400Exception
                          else if n = 401 then HTTP401Exception
                          else if n = 403 then HTTP403Exception
                          else if n = 404 then HTTP404Exception
                          else HTTP409Exception)
                  (FromException e)
                  (mapped_detail [''InvalidValueError'', ''TypeSystemError''] e)), [])"
  by (auto simp: named_v3_iff except_v3_def except_auth_chain_def wrap_http_def
      mapped_code_def mapped_detail_def)

lemma except_http_named:
  "named_http e \<Longrightarrow>
     except_http debug allowed e
       = (Http (SchematicHTTPException
                  (case mapped_code
                          [''InvalidValueError'', ''ParseError'', ''SchemaValidationError''] e of
                     n \<Rightarrow> if n = 400 then HTTP400Exception
                          else if n = 401 then HTTP401Exception
                          else if n = 403 then HTTP403Exception
                          else if n = 404 then HTTP404Exception
                          else HTTP409Exception)
                  (FromException e)
                  (mapped_detail
                     [''InvalidValueError'', ''ParseError'', ''SchemaValidationError''] e)), [])"
  by (auto simp: named_http_iff except_http_def except_auth_chain_def wrap_http_def
      mapped_code_def mapped_detail_def)

lemma raises_http_mapped:
  "raises_http
     (Inl (Http (SchematicHTTPException
                   (case mapped_code bad e of
                      n \<Rightarrow> if n = 400 then HTTP400Exception
                           else if n = 401 then HTTP401Exception
                           else if n = 403 then HTTP403Exception
                           else if n = 404 then HTTP404Exception
                           else HTTP409Exception)
                   (FromException e) d)), fx)
     (mapped_code bad e) (FromException e) d"
  by (simp add: raises_http_def SchematicHTTPException_def mapped_code_def)

text \<open>
  C2, as amended. In each handler the escape hatches apply to the catch-all clause
  only, and the named kinds are those of the handler's own five named clauses:
  invalid-value and type-system, unauthorized, forbidden, not-found and immutable in
  \<open>handle_http_v3\<close>; invalid-value, parse and schema-validation, unauthorized,
  forbidden, not-found and immutable in \<open>handle_http\<close>. An exception \<open>e\<close> escaping
  the body that is of no named kind of the handler is re-raised unchanged, with nothing
  logged, when the debug flag is set or when its concrete class is in the
  allowed-exceptions list. An exception of a named kind of the handler is raised as the
  HTTP exception of the status mapped for its kind by first match (400, 401, 403, 404 or
  409), carrying \<open>e\<close> and, in the 400 row, its error detail, whatever the debug flag and
  the allowed-exceptions list are.
\<close>

theorem escape_hatches_catch_all_only:
  "(v3_body w req args kwargs lg = (Inl e, fx) \<longrightarrow>
      (\<not> named_v3 e \<and> app_debug w \<longrightarrow>
         handle_http_v3 w req args kwargs lg allowed = (Inl (Original e), fx))
    \<and> (\<not> named_v3 e \<and> exc_class e \<in> set clss \<longrightarrow>
         handle_http_v3 w req args kwargs lg (Some clss) = (Inl (Original e), fx))
    \<and> (named_v3 e \<longrightarrow>
         raises_http (handle_http_v3 w req args kwargs lg allowed)
           (mapped_code [''InvalidValueError'', ''TypeSystemError''] e) (FromException e)
           (mapped_detail [''InvalidValueError'', ''TypeSystemError''] e)
         \<and> snd (handle_http_v3 w req args kwargs lg allowed) = fx))
 \<and> (http_body w schema req args kwargs exec rs rv pv = (Inl e, fx) \<longrightarrow>
      (\<not> named_http e \<and> app_debug w \<longrightarrow>
         handle_http w schema req args kwargs exec rs rv pv allowed = (Inl (Original e), fx))
    \<and> (\<not> named_http e \<and> exc_class e \<in> set clss \<longrightarrow>
         handle_http w schema req args kwargs exec rs rv pv (Some clss)
           = (Inl (Original e), fx))
    \<and> (named_http e \<longrightarrow>
         raises_http (handle_http w schema req args kwargs exec rs rv pv allowed)
           (mapped_code [''InvalidValueError'', ''ParseError'', ''SchemaValidationError''] e)
           (FromException e)
           (mapped_detail [''InvalidValueError'', ''ParseError'', ''SchemaValidationError''] e)
         \<and> snd (handle_http w schema req args kwargs exec rs rv pv allowed) = fx))"
proof (intro conjI impI)
  assume b: "v3_body w req args kwargs lg = (Inl e, fx)"
  have h: "\<And>al. handle_http_v3 w req args kwargs lg al
      = (Inl (fst (except_v3 (app_debug w) al e)), fx @ snd (except_v3 (app_debug w) al e))"
    by (simp add: handle_http_v3_def b translate_Inl)
  { assume "\<not> named_v3 e \<and> app_debug w"
    then show "handle_http_v3 w req args kwargs lg allowed = (Inl (Original e), fx)"
      by (simp add: h except_v3_unnamed catch_all_reraises) }
  { assume "\<not> named_v3 e \<and> exc_class e \<in> set clss"
    then show "handle_http_v3 w req args kwargs lg (Some clss) = (Inl (Original e), fx)"
      by (simp add: h except_v3_unnamed catch_all_reraises) }
  { assume n: "named_v3 e"
    show "raises_http (handle_http_v3 w req args kwargs lg allowed)
           (mapped_code [''InvalidValueError'', ''TypeSystemError''] e) (FromException e)
           (mapped_detail [''InvalidValueError'', ''TypeSystemError''] e)"
      unfolding h except_v3_named [OF n] fst_conv by (rule raises_http_mapped)
    show "snd (handle_http_v3 w req args kwargs lg allowed) = fx"
      unfolding h except_v3_named [OF n] by simp }
next
  assume b: "http_body w schema req args kwargs exec rs rv pv = (Inl e, fx)"
  have h: "\<And>al. handle_http w schema req args kwargs exec rs rv pv al
      = (Inl (fst (except_http (app_debug w) al e)),
         fx @ snd (except_http (app_debug w) al e))"
    by (simp add: handle_http_def b translate_Inl)
  { assume "\<not> named_http e \<and> app_debug w"
    then show "handle_http w schema req args kwargs exec rs rv pv allowed
        = (Inl (Original e), fx)"
      by (simp add: h except_http_unnamed catch_all_reraises) }
  { assume "\<not> named_http e \<and> exc_class e \<in> set clss"
    then show "handle_http w schema req args kwargs exec rs rv pv (Some clss)
        = (Inl (Original e), fx)"
      by (simp add: h except_http_unnamed catch_all_reraises) }
  { assume n: "named_http e"
    show "raises_http (handle_http w schema req args kwargs exec rs rv pv allowed)
           (mapped_code [''InvalidValueError'', ''ParseError'', ''SchemaValidationError''] e)
           (FromException e)
           (mapped_detail [''InvalidValueError'', ''ParseError'', ''SchemaValidationError''] e)"
      unfolding h except_http_named [OF n] fst_conv by (rule raises_http_mapped)
    show "snd (handle_http w schema req args kwargs exec rs rv pv allowed) = fx"
      unfolding h except_http_named [OF n] by simp }
qed

text \<open>
  With the debug flag set: a KeyError of the logic function leaves either handler
  unchanged; a TypeSystemError leaves \<open>handle_http_v3\<close> as a 400 with its field detail;
  an UnauthorizedError leaves \<open>handle_http\<close> as a 401. With the flag clear, a KeyError
  that is allowed leaves \<open>handle_http_v3\<close> unchanged.
\<close>

theorem escape_hatches_catch_all_only_witness:
  "handle_http_v3 (example_world\<lparr>app_debug := True\<rparr>) example_get [] []
       (no_params (Inl (KeyError ''k'')) None) None
     = (Inl (Original (KeyError ''k'')), [LogicCalled [] []])
   \<and> handle_http_v3 example_world example_get [] []
       (no_params (Inl (KeyError ''k'')) None) (Some [''KeyError''])
     = (Inl (Original (KeyError ''k'')), [LogicCalled [] []])
   \<and> raises_http
       (handle_http_v3 (example_world\<lparr>app_debug := True\<rparr>) example_get [] []
          (no_params (Inl example_type_error) None) None)
       400 (FromException example_type_error) (Some [(''name'', ''Must be a string'')])
   \<and> handle_http (example_world\<lparr>app_debug := True\<rparr>) example_schema example_get [] []
       (\<lambda>args kw. Inl (KeyError ''k'')) PNone None None None
     = (Inl (Original (KeyError ''k'')), [LogicCalled [] []])
   \<and> raises_http
       (handle_http (example_world\<lparr>app_debug := True\<rparr>) example_schema example_get [] []
          (\<lambda>args kw. Inl example_unauthorized_error) PNone None None None)
       401 (FromException example_unauthorized_error) None"
proof -
  let ?dbg = "example_world\<lparr>app_debug := True\<rparr>"
  have nk: "\<not> named_v3 (KeyError ''k'')" and hk: "\<not> named_http (KeyError ''k'')"
    and nt: "named_v3 example_type_error" and hu: "named_http example_unauthorized_error"
    by (simp_all add: named_v3_def named_http_def isinstance_def KeyError_def
        builtin_error_def example_type_error_def example_unauthorized_error_def)
  have d: "app_debug ?dbg"
    by simp
  have c: "exc_class (KeyError ''k'') \<in> set [''KeyError'']"
    by (simp add: KeyError_def builtin_error_def)
  have ct: "mapped_code [''InvalidValueError'', ''TypeSystemError''] example_type_error = 400"
    and dt: "mapped_detail [''InvalidValueError'', ''TypeSystemError''] example_type_error
      = Some [(''name'', ''Must be a string'')]"
    and cu: "mapped_code [''InvalidValueError'', ''ParseError'', ''SchemaValidationError'']
      example_unauthorized_error = 401"
    and du: "mapped_detail [''InvalidValueError'', ''ParseError'', ''SchemaValidationError'']
      example_unauthorized_error = None"
    by (simp_all add: mapped_code_def mapped_detail_def isinstance_def
        example_type_error_def example_unauthorized_error_def)
  note v3 = escape_hatches_catch_all_only [THEN conjunct1, rule_format, OF example_v3_raises]
  note http = escape_hatches_catch_all_only [THEN conjunct2, rule_format, OF example_http_raises]
  have "handle_http_v3 ?dbg example_get [] []
       (no_params (Inl (KeyError ''k'')) None) None
     = (Inl (Original (KeyError ''k'')), [LogicCalled [] []])"
    using nk d by (rule v3 [THEN conjunct1, rule_format, OF conjI])
  moreover have "handle_http_v3 example_world example_get [] []
       (no_params (Inl (KeyError ''k'')) None) (Some [''KeyError''])
     = (Inl (Original (KeyError ''k'')), [LogicCalled [] []])"
    using nk c by (rule v3 [THEN conjunct2, THEN conjunct1, rule_format, OF conjI])
  moreover have "raises_http
       (handle_http_v3 ?dbg example_get [] []
          (no_params (Inl example_type_error) None) None)
       400 (FromException example_type_error) (Some [(''name'', ''Must be a string'')])"
    using v3 [THEN conjunct2, THEN conjunct2, rule_format, OF nt, THEN conjunct1,
        of ?dbg None]
    by (simp only: ct dt)
  moreover have "handle_http ?dbg example_schema example_get [] []
       (\<lambda>args kw. Inl (KeyError ''k'')) PNone None None None
     = (Inl (Original (KeyError ''k'')), [LogicCalled [] []])"
    using hk d by (rule http [THEN conjunct1, rule_format, OF conjI])
  moreover have "raises_http
       (handle_http ?dbg example_schema example_get [] []
          (\<lambda>args kw. Inl example_unauthorized_error) PNone None None None)
       401 (FromException example_unauthorized_error) None"
    using http [THEN conjunct2, THEN conjunct2, rule_format, OF hu, THEN conjunct1,
        of ?dbg None]
    by (simp only: cu du)
  ultimately show ?thesis
    by (intro conjI)
qed

text \<open>
  The claim as worded fails whichever single set of named kinds is taken. With the
  debug flag set, a ParseError of the logic function is re-raised unchanged by
  \<open>handle_http_v3\<close>, so it is not mapped there; and the same error is mapped to 400 by
  \<open>handle_http\<close>, so the escape hatch does not reach it there.
\<close>

theorem parse_error_under_debug_differs:
  "isinstance example_parse_error ''ParseError''
   \<and> handle_http_v3 (example_world\<lparr>app_debug := True\<rparr>) example_get [] []
       (no_params (Inl example_parse_error) None) None
     = (Inl (Original example_parse_error), [LogicCalled [] []])
   \<and> raises_http
       (handle_http (example_world\<lparr>app_debug := True\<rparr>) example_schema example_get [] []
          (\<lambda>args kw. Inl example_parse_error) PNone None None None)
       400 (FromException example_parse_error) None"
proof -
  let ?dbg = "example_world\<lparr>app_debug := True\<rparr>"
  have i: "isinstance example_parse_error ''ParseError''"
    by (simp add: isinstance_def example_parse_error_def)
  have v: "except_v3 True None example_parse_error = (Original example_parse_error, [])"
    by (simp add: except_v3_def except_auth_chain_def catch_all_def isinstance_def
        example_parse_error_def)
  have h: "except_http True None example_parse_error
      = (Http (SchematicHTTPException HTTP400Exception (FromException example_parse_error)
                 None), [])"
    by (simp add: except_http_def isinstance_def example_parse_error_def)
  have a: "handle_http_v3 ?dbg example_get [] [] (no_params (Inl example_parse_error) None) None
      = (Inl (Original example_parse_error), [LogicCalled [] []])"
    unfolding handle_http_v3_def example_v3_raises translate_Inl
    by (simp add: v)
  have b: "handle_http ?dbg example_schema example_get [] []
          (\<lambda>args kw. Inl example_parse_error) PNone None None None
      = (Inl (Http (SchematicHTTPException HTTP400Exception
                      (FromException example_parse_error) None)), [LogicCalled [] []])"
    unfolding handle_http_def example_http_raises translate_Inl
    by (simp add: h)
  from i a show ?thesis
    by (simp add: b raises_http_def SchematicHTTPException_def)
qed

section \<open>Replies\<close>

lemma status_for_verb:
  "status_for m = (if m = ''POST'' then 201 else if m = ''DELETE'' then 204 else 200)"
  by (simp add: status_for_def STATUS_CODE_MAP_def)

lemma translate_Inr_iff:
  "translate h res = (Inr r, fx) \<longleftrightarrow> res = (Inr r, fx)"
  by (auto simp: translate_def split: prod.splits sum.splits)

lemma v3_body_Inr:
  assumes "v3_body w req args kwargs lg = (Inr r, fx)"
  shows "\<exists>params response. call lg args params = Inr response
           \<and> LogicCalled args params \<in> set fx \<and> r = shape_reply req response"
  using assms
  by (auto simp: v3_body_def split: sum.splits prod.splits) blast+

lemma http_body_Inr:
  assumes "http_body w schema req args kwargs exec rs rv pv = (Inr r, fx)"
  shows "\<exists>params response. exec args params = Inr response
           \<and> LogicCalled args params \<in> set fx \<and> r = shape_reply req response"
  using assms
  by (auto simp: http_body_def split: sum.splits prod.splits) blast+

text \<open>
  C3. A handler that returns a reply called the logic function, which returned some
  \<open>response\<close>; for a Response envelope the reply is the triple of its content, the status
  and its headers, otherwise the pair of the returned value and the status; and the
  status is 201 for POST, 204 for DELETE and 200 for every other verb, a function of the
  request's verb alone.
\<close>

theorem reply_shape_and_status:
  "(handle_http_v3 w req args kwargs lg allowed = (Inr r, fx) \<longrightarrow>
      (\<exists>params response.
          call lg args params = Inr response \<and> LogicCalled args params \<in> set fx
        \<and> r = (let status = (if req_method req = ''POST'' then 201
                              else if req_method req = ''DELETE'' then 204 else 200)
               in case response of
                    Response content headers \<Rightarrow> Reply3 content status headers
                  | Plain v \<Rightarrow> Reply2 v status)))
 \<and> (handle_http w schema req args kwargs exec rs rv pv allowed = (Inr r, fx) \<longrightarrow>
      (\<exists>params response.
          exec args params = Inr response \<and> LogicCalled args params \<in> set fx
        \<and> r = (let status = (if req_method req = ''POST'' then 201
                              else if req_method req = ''DELETE'' then 204 else 200)
               in case response of
                    Response content headers \<Rightarrow> Reply3 content status headers
                  | Plain v \<Rightarrow> Reply2 v status)))"
proof (intro conjI impI)
  assume "handle_http_v3 w req args kwargs lg allowed = (Inr r, fx)"
  then have "v3_body w req args kwargs lg = (Inr r, fx)"
    by (simp add: handle_http_v3_def translate_Inr_iff)
  from v3_body_Inr [OF this] obtain params response where
    "call lg args params = Inr response" "LogicCalled args params \<in> set fx"
    "r = shape_reply req response"
    by blast
  then show "\<exists>params response.
          call lg args params = Inr response \<and> LogicCalled args params \<in> set fx
        \<and> r = (let status = (if req_method req = ''POST'' then 201
                              else if req_method req = ''DELETE'' then 204 else 200)
               in case response of
                    Response content headers \<Rightarrow> Reply3 content status headers
                  | Plain v \<Rightarrow> Reply2 v status)"
    by (intro exI [of _ params] exI [of _ response])
      (simp add: shape_reply_def status_for_verb Let_def split: retval.split)
next
  assume "handle_http w schema req args kwargs exec rs rv pv allowed = (Inr r, fx)"
  then have "http_body w schema req args kwargs exec rs rv pv = (Inr r, fx)"
    by (simp add: handle_http_def translate_Inr_iff)
  from http_body_Inr [OF this] obtain params response where
    "exec args params = Inr response" "LogicCalled args params \<in> set fx"
    "r = shape_reply req response"
    by blast
  then show "\<exists>params response.
          exec args params = Inr response \<and> LogicCalled args params \<in> set fx
        \<and> r = (let status = (if req_method req = ''POST'' then 201
                              else if req_method req = ''DELETE'' then 204 else 200)
               in case response of
                    Response content headers \<Rightarrow> Reply3 content status headers
                  | Plain v \<Rightarrow> Reply2 v status)"
    by (intro exI [of _ params] exI [of _ response])
      (simp add: shape_reply_def status_for_verb Let_def split: retval.split)
qed

lemma create_foo_post:
  "handle_http_v3 example_world
     (example_json verb (PDict [(''name'', PStr ''a''), (''junk'', PInt 1)]) []) [] []
     (create_foo response) None
   = (Inr (shape_reply (example_json verb PNone []) response),
      [LogicCalled [] [(''name'', PStr ''a'')]])"
  if "verb \<in> set HTTP_METHODS_WITH_JSON_BODY" and "Foo (content_of response) = Inr v"
  using that
  by (simp add: handle_http_v3_def v3_body_def merged_params_def request_params_def
      json_request_def example_json_def items_def create_foo_def call_function_def dict_update_def
      dict_of_items_def Name_def validate_response_v3_def translate_Inr shape_reply_def
      split: retval.split)

text \<open>
  A POST of \<open>{"name": "a"}\<close> to \<open>create_foo\<close>: a bare return value gives the pair with
  status 201, an envelope gives the triple with its headers; a DELETE through the schema
  dispatcher gives status 204.
\<close>

theorem reply_shape_and_status_witness:
  "(\<exists>params response.
       call (create_foo (Plain (PStr ''foo''))) [] params = Inr response
     \<and> Reply2 (PStr ''foo'') 201 = (case response of
           Response content headers \<Rightarrow> Reply3 content 201 headers
         | Plain v \<Rightarrow> Reply2 v 201))
   \<and> (\<exists>params response.
       call (create_foo (Response (PStr ''foo'') [(''X-Foo'', ''1'')])) [] params = Inr response
     \<and> Reply3 (PStr ''foo'') 201 [(''X-Foo'', ''1'')] = (case response of
           Response content headers \<Rightarrow> Reply3 content 201 headers
         | Plain v \<Rightarrow> Reply2 v 201))
   \<and> (\<exists>params response.
       call (no_params (Inr (Plain PNone)) None) [] params = Inr response
     \<and> Reply2 PNone 204 = (case response of
           Response content headers \<Rightarrow> Reply3 content 204 headers
         | Plain v \<Rightarrow> Reply2 v 204))"
proof -
  have post: "''POST'' \<in> set HTTP_METHODS_WITH_JSON_BODY"
    by (simp add: HTTP_METHODS_WITH_JSON_BODY_def)
  have m: "req_method (example_json ''POST'' b q) = ''POST''" for b q
    by (simp add: example_json_def)
  have a: "handle_http_v3 example_world
       (example_json ''POST'' (PDict [(''name'', PStr ''a''), (''junk'', PInt 1)]) []) [] []
       (create_foo (Plain (PStr ''foo''))) None
     = (Inr (Reply2 (PStr ''foo'') 201), [LogicCalled [] [(''name'', PStr ''a'')]])"
    by (simp add: create_foo_post [OF post] Foo_def content_of_def shape_reply_def
        status_for_verb m split: retval.split)
  have b: "handle_http_v3 example_world
       (example_json ''POST'' (PDict [(''name'', PStr ''a''), (''junk'', PInt 1)]) []) [] []
       (create_foo (Response (PStr ''foo'') [(''X-Foo'', ''1'')])) None
     = (Inr (Reply3 (PStr ''foo'') 201 [(''X-Foo'', ''1'')]),
        [LogicCalled [] [(''name'', PStr ''a'')]])"
    by (simp add: create_foo_post [OF post] Foo_def content_of_def shape_reply_def
        status_for_verb m split: retval.split)
  have d: "req_method (example_get\<lparr>req_method := ''DELETE''\<rparr>) = ''DELETE''"
    by simp
  have c: "handle_http example_world example_schema (example_get\<lparr>req_method := ''DELETE''\<rparr>)
       [] [] (call (no_params (Inr (Plain PNone)) None)) PNone None None None
     = (Inr (Reply2 PNone 204), [LogicCalled [] []])"
    by (simp add: handle_http_def http_body_def http_call_params_def no_params_def call_function_def
        validate_response_http_def translate_Inr shape_reply_def status_for_verb)
  from reply_shape_and_status [THEN conjunct1, rule_format, OF a]
  have 1: "\<exists>params response.
       call (create_foo (Plain (PStr ''foo''))) [] params = Inr response
     \<and> Reply2 (PStr ''foo'') 201 = (case response of
           Response content headers \<Rightarrow> Reply3 content 201 headers
         | Plain v \<Rightarrow> Reply2 v 201)"
    by (simp add: m) blast
  from reply_shape_and_status [THEN conjunct1, rule_format, OF b]
  have 2: "\<exists>params response.
       call (create_foo (Response (PStr ''foo'') [(''X-Foo'', ''1'')])) [] params = Inr response
     \<and> Reply3 (PStr ''foo'') 201 [(''X-Foo'', ''1'')] = (case response of
           Response content headers \<Rightarrow> Reply3 content 201 headers
         | Plain v \<Rightarrow> Reply2 v 201)"
    by (simp add: m) blast
  from reply_shape_and_status [THEN conjunct2, rule_format, OF c]
  have 3: "\<exists>params response.
       call (no_params (Inr (Plain PNone)) None) [] params = Inr response
     \<and> Reply2 PNone 204 = (case response of
           Response content headers \<Rightarrow> Reply3 content 204 headers
         | Plain v \<Rightarrow> Reply2 v 204)"
    by (simp only: d) (simp, blast)
  from 1 2 3 show ?thesis
    by (intro conjI)
qed

section \<open>Missing required parameters\<close>

lemma check_required_find:
  "check_required bases rs params =
     (case List.find (\<lambda>r. r \<notin> set (map fst params)) rs of
        None \<Rightarrow> Inr ()
      | Some m \<Rightarrow> Inl (InvalidValueError bases (m @ '' is required.'')))"
  by (induction rs) simp_all

lemma find_absent:
  "r \<in> set rs \<Longrightarrow> \<not> P r \<Longrightarrow> \<exists>m. List.find (\<lambda>r. \<not> P r) rs = Some m"
  by (cases "List.find (\<lambda>r. \<not> P r) rs") (auto simp: find_None_iff)

text \<open>
  C4. In type-annotation mode, when the merged parameter mapping lacks some name of the
  logic function's required list, the handler raises HTTP 400 whose description is the
  InvalidValueError with the message \<open><name> is required.\<close> for the first such name in
  the order of the list; no effect is recorded, so the logic function was not called.
\<close>

theorem missing_required_raises_400:
  assumes "merged_params req lg kwargs = Inr params"
    and "r \<in> set (required (doctor_params lg))"
    and "r \<notin> set (map fst params)"
  shows "\<exists>m. List.find (\<lambda>r. r \<notin> set (map fst params)) (required (doctor_params lg)) = Some m
           \<and> handle_http_v3 w req args kwargs lg allowed
               = (Inl (Http (SchematicHTTPException HTTP400Exception
                    (FromException
                       (InvalidValueError (invalid_value_bases w) (m @ '' is required.'')))
                    None)), [])
           \<and> http_code HTTP400Exception = 400
           \<and> (\<forall>a p. LogicCalled a p \<notin> set (snd (handle_http_v3 w req args kwargs lg allowed)))"
proof -
  from find_absent [of r "required (doctor_params lg)" "\<lambda>r. r \<in> set (map fst params)"]
    assms(2,3)
  obtain m where m: "List.find (\<lambda>r. r \<notin> set (map fst params)) (required (doctor_params lg))
      = Some m"
    by blast
  let ?e = "InvalidValueError (invalid_value_bases w) (m @ '' is required.'')"
  have "check_required (invalid_value_bases w) (required (doctor_params lg)) params = Inl ?e"
    unfolding check_required_find m by simp
  then have "v3_body w req args kwargs lg = (Inl ?e, [])"
    by (simp add: v3_body_def assms(1))
  moreover have "except_v3 (app_debug w) allowed ?e
      = (Http (SchematicHTTPException HTTP400Exception (FromException ?e) None), [])"
    by (simp add: except_v3_def isinstance_def InvalidValueError_def)
  ultimately have "handle_http_v3 w req args kwargs lg allowed
      = (Inl (Http (SchematicHTTPException HTTP400Exception (FromException ?e) None)), [])"
    by (simp add: handle_http_v3_def translate_Inl)
  with m show ?thesis
    by simp
qed

text \<open>
  A JSON POST with the empty body \<open>{}\<close> to \<open>create_foo\<close>, which requires \<open>name\<close>.
\<close>

theorem missing_required_raises_400_witness:
  "handle_http_v3 example_world (example_json ''POST'' (PDict []) []) [] []
       (create_foo (Plain (PStr ''foo''))) None
     = (Inl (Http (SchematicHTTPException HTTP400Exception
          (FromException
             (InvalidValueError [''Exception'', ''BaseException'', ''object'']
                ''name is required.''))
          None)), [])"
proof -
  let ?req = "example_json ''POST'' (PDict []) []"
  let ?lg = "create_foo (Plain (PStr ''foo''))"
  have mp: "merged_params ?req ?lg [] = Inr []"
    by (simp add: merged_params_def request_params_def json_request_def example_json_def
        HTTP_METHODS_WITH_JSON_BODY_def items_def dict_update_def dict_of_items_def)
  have rq: "''name'' \<in> set (required (doctor_params ?lg))"
    by (simp add: create_foo_def call_function_def)
  have ab: "''name'' \<notin> set (map fst ([] :: pydict))"
    by simp
  have f: "List.find (\<lambda>r. r \<notin> set (map fst ([] :: pydict))) (required (doctor_params ?lg))
      = Some ''name''"
    by (simp add: create_foo_def call_function_def)
  have b: "invalid_value_bases example_world = [''Exception'', ''BaseException'', ''object'']"
    by (simp add: example_world_def)
  from missing_required_raises_400 [OF mp rq ab, of example_world "[]" None]
  obtain m where
    "List.find (\<lambda>r. r \<notin> set (map fst ([] :: pydict))) (required (doctor_params ?lg))
       = Some m"
    and h: "handle_http_v3 example_world ?req [] [] ?lg None
       = (Inl (Http (SchematicHTTPException HTTP400Exception
            (FromException
               (InvalidValueError (invalid_value_bases example_world)
                  (m @ '' is required.'')))
            None)), [])"
    by blast
  with f have "m = ''name''"
    by (simp only: option.inject)
  with h b show ?thesis
    by simp
qed

section \<open>Parameter extraction, filtering and merge\<close>

lemma map_of_dict_set: "map_of (dict_set d k v) = (map_of d)(k \<mapsto> v)"
  by (induction d) (auto simp: fun_eq_iff)

lemma keys_dict_set: "set (map fst (dict_set d k v)) = insert k (set (map fst d))"
proof (induction d)
  case Nil
  then show ?case by simp
next
  case (Cons a d)
  obtain k' v' where a: "a = (k', v')"
    by (cases a)
  show ?case
    using Cons.IH by (cases "k' = k") (simp_all add: a insert_commute)
qed

lemma distinct_dict_set: "distinct (map fst d) \<Longrightarrow> distinct (map fst (dict_set d k v))"
proof (induction d)
  case Nil
  then show ?case by simp
next
  case (Cons a d)
  have "fst a \<noteq> k \<Longrightarrow> fst a \<notin> set (map fst (dict_set d k v))"
    using Cons.prems by (simp add: keys_dict_set del: set_map)
  with Cons show ?case
    by (cases a) auto
qed

lemma dict_update_Cons: "dict_update d ((k, v) # kw) = dict_update (dict_set d k v) kw"
  by (simp add: dict_update_def)

lemma map_of_dict_update:
  "map_of (dict_update d kw) k =
     (case map_of (rev kw) k of Some v \<Rightarrow> Some v | None \<Rightarrow> map_of d k)"
proof (induction kw arbitrary: d)
  case Nil
  then show ?case by (simp add: dict_update_def)
next
  case (Cons a kw)
  obtain k' v' where a: "a = (k', v')"
    by (cases a)
  show ?case
    by (simp add: a dict_update_Cons Cons.IH map_of_dict_set map_add_def
        split: option.splits)
qed

lemma distinct_dict_update:
  "distinct (map fst d) \<Longrightarrow> distinct (map fst (dict_update d kw))"
proof (induction kw arbitrary: d)
  case Nil
  then show ?case by (simp add: dict_update_def)
next
  case (Cons a kw)
  then show ?case
    by (cases a) (simp add: dict_update_Cons distinct_dict_set)
qed

lemma map_of_filter_key:
  "map_of (filter (\<lambda>(k, v). P k) xs) k = (if P k then map_of xs k else None)"
  by (induction xs) auto

lemma map_of_dict_of_items: "map_of (dict_of_items xs) k = map_of (rev xs) k"
  by (simp add: dict_of_items_def map_of_dict_update split: option.splits)

lemma distinct_dict_of_items: "distinct (map fst (dict_of_items xs))"
  by (simp add: dict_of_items_def distinct_dict_update)

lemma request_params_source:
  "request_params req =
     (case (if req_mimetype req = ''application/json''
               \<and> req_method req \<in> {''POST'', ''PUT'', ''PATCH''}
            then req_json req else Inr (PDict (req_values req))) of
        Inl e \<Rightarrow> Inl e
      | Inr body \<Rightarrow> items body)"
  by (auto simp: request_params_def json_request_def HTTP_METHODS_WITH_JSON_BODY_def
      items_def)

lemma translate_effects_prefix: "\<exists>rest. snd (translate h res) = snd res @ rest"
proof -
  obtain a fx where res: "res = (a, fx)"
    by (cases res)
  show ?thesis
    by (cases a) (simp_all add: res translate_Inl translate_Inr)
qed

lemma coerce_params_keys:
  "coerce_params ps xs = Inr ys \<Longrightarrow> map fst ys = map fst xs"
proof (induction xs arbitrary: ys)
  case Nil
  then show ?case by simp
next
  case (Cons a xs)
  obtain name v where a: "a = (name, v)"
    by (cases a)
  from Cons.prems obtain v' rest where "ys = (name, v') # rest"
    and "coerce_params ps xs = Inr rest"
    by (auto simp: a split: option.splits sum.splits)
  with Cons.IH show ?case
    by (simp add: a)
qed

lemma v3_body_calls:
  assumes "merged_params req lg kwargs = Inr params"
    and "check_required (invalid_value_bases w) (required (doctor_params lg)) params = Inr ()"
    and "coerce_params (parameters (doctor_signature lg)) params = Inr params'"
  shows "\<exists>rest. snd (v3_body w req args kwargs lg) = LogicCalled args params' # rest"
  using assms by (simp add: v3_body_def split: sum.split prod.split)

lemma http_body_calls:
  assumes "http_call_params schema req rs rv kwargs = Inr params"
  shows "\<exists>rest. snd (http_body w schema req args kwargs exec rs rv pv)
           = LogicCalled args params # rest"
  using assms by (simp add: http_body_def split: sum.split prod.split)

lemma handle_http_v3_calls:
  assumes "merged_params req lg kwargs = Inr params"
    and "check_required (invalid_value_bases w) (required (doctor_params lg)) params = Inr ()"
    and "coerce_params (parameters (doctor_signature lg)) params = Inr params'"
  shows "\<exists>rest. snd (handle_http_v3 w req args kwargs lg allowed)
           = LogicCalled args params' # rest"
proof -
  from v3_body_calls [OF assms] obtain r1 where
    "snd (v3_body w req args kwargs lg) = LogicCalled args params' # r1"
    by blast
  moreover from translate_effects_prefix obtain r2 where
    "snd (handle_http_v3 w req args kwargs lg allowed)
       = snd (v3_body w req args kwargs lg) @ r2"
    unfolding handle_http_v3_def by blast
  ultimately show ?thesis
    by simp
qed

lemma handle_http_calls:
  assumes "http_call_params schema req rs rv kwargs = Inr params"
  shows "\<exists>rest. snd (handle_http w schema req args kwargs exec rs rv pv allowed)
           = LogicCalled args params # rest"
proof -
  from http_body_calls [OF assms] obtain r1 where
    "snd (http_body w schema req args kwargs exec rs rv pv) = LogicCalled args params # r1"
    by blast
  moreover from translate_effects_prefix obtain r2 where
    "snd (handle_http w schema req args kwargs exec rs rv pv allowed)
       = snd (http_body w schema req args kwargs exec rs rv pv) @ r2"
    unfolding handle_http_def by blast
  ultimately show ?thesis
    by simp
qed

text \<open>
  C5, as amended. The parameter source is the parsed JSON body exactly when the mimetype
  is \<open>application/json\<close> and the verb is POST, PUT or PATCH, and the flat values
  otherwise. In \<open>handle_http_v3\<close>, when the source is a mapping with items \<open>its\<close>, the
  merged parameters are a dict in which a router-supplied keyword argument wins, and any
  other key is present exactly when it is among the logic function's \<open>all\<close> names and
  in the source, with the source's value; when the required check and the coercion
  pass, the logic function is called with the coerced values under the same keys. In
  \<open>handle_http\<close> with a request schema, the non-JSON source is \<open>schema._parse_params\<close>
  of the flat values, nothing is filtered, keyword arguments win likewise, and when the
  request validates \<open>exec_params\<close> is called with exactly these parameters; without a
  request schema it is called with the keyword arguments alone.
\<close>

theorem parameter_source_filter_merge:
  "((if req_mimetype req = ''application/json''
        \<and> req_method req \<in> {''POST'', ''PUT'', ''PATCH''}
     then req_json req else Inr (PDict (req_values req))) = Inr (PDict its) \<longrightarrow>
      (\<exists>params. merged_params req lg kwargs = Inr params \<and> distinct (map fst params)
         \<and> (\<forall>k. map_of params k =
               (case map_of (rev kwargs) k of
                  Some v \<Rightarrow> Some v
                | None \<Rightarrow> if k \<in> set (all (doctor_params lg)) then map_of (rev its) k
                          else None))
         \<and> (\<forall>params'.
               check_required (invalid_value_bases w) (required (doctor_params lg)) params
                 = Inr ()
               \<and> coerce_params (parameters (doctor_signature lg)) params = Inr params' \<longrightarrow>
               map fst params' = map fst params
               \<and> (\<exists>rest. snd (handle_http_v3 w req args kwargs lg allowed)
                     = LogicCalled args params' # rest))))
 \<and> ((if req_mimetype req = ''application/json''
        \<and> req_method req \<in> {''POST'', ''PUT'', ''PATCH''}
      then req_json req else parse_params schema (req_values req) request_schema)
       = Inr (PDict d) \<longrightarrow>
      (\<exists>params. http_params schema req request_schema kwargs = Inr params
         \<and> (\<forall>k. map_of params k =
               (case map_of (rev kwargs) k of Some v \<Rightarrow> Some v | None \<Rightarrow> map_of d k))
         \<and> (truthy request_schema
               \<and> validate_request schema request_validator params = Inr () \<longrightarrow>
               (\<exists>rest. snd (handle_http w schema req args kwargs exec request_schema
                               request_validator response_validator allowed)
                     = LogicCalled args params # rest))))
 \<and> (\<not> truthy request_schema \<longrightarrow>
      http_call_params schema req request_schema request_validator kwargs = Inr kwargs
      \<and> (\<exists>rest. snd (handle_http w schema req args kwargs exec request_schema
                       request_validator response_validator allowed)
            = LogicCalled args kwargs # rest))"
proof (intro conjI impI)
  assume "(if req_mimetype req = ''application/json''
        \<and> req_method req \<in> {''POST'', ''PUT'', ''PATCH''}
     then req_json req else Inr (PDict (req_values req))) = Inr (PDict its)"
  then have "request_params req = Inr its"
    by (simp add: request_params_source items_def)
  then have m: "merged_params req lg kwargs =
      Inr (dict_update
             (dict_of_items (filter (\<lambda>(k, v). k \<in> set (all (doctor_params lg))) its))
             kwargs)"
    by (simp add: merged_params_def)
  let ?params = "dict_update
             (dict_of_items (filter (\<lambda>(k, v). k \<in> set (all (doctor_params lg))) its))
             kwargs"
  have law: "map_of ?params k =
               (case map_of (rev kwargs) k of
                  Some v \<Rightarrow> Some v
                | None \<Rightarrow> if k \<in> set (all (doctor_params lg)) then map_of (rev its) k
                          else None)" for k
    by (simp add: map_of_dict_update map_of_dict_of_items map_of_filter_key rev_filter
        split: option.split)
  have dist: "distinct (map fst ?params)"
    by (simp add: distinct_dict_update distinct_dict_of_items)
  have run: "map fst params' = map fst ?params
      \<and> (\<exists>rest. snd (handle_http_v3 w req args kwargs lg allowed)
            = LogicCalled args params' # rest)"
    if "check_required (invalid_value_bases w) (required (doctor_params lg)) ?params = Inr ()
        \<and> coerce_params (parameters (doctor_signature lg)) ?params = Inr params'"
    for params'
    using that handle_http_v3_calls [OF m, of w params' args allowed]
      coerce_params_keys [of "parameters (doctor_signature lg)" ?params params']
    by blast
  show "\<exists>params. merged_params req lg kwargs = Inr params \<and> distinct (map fst params)
         \<and> (\<forall>k. map_of params k =
               (case map_of (rev kwargs) k of
                  Some v \<Rightarrow> Some v
                | None \<Rightarrow> if k \<in> set (all (doctor_params lg)) then map_of (rev its) k
                          else None))
         \<and> (\<forall>params'.
               check_required (invalid_value_bases w) (required (doctor_params lg)) params
                 = Inr ()
               \<and> coerce_params (parameters (doctor_signature lg)) params = Inr params' \<longrightarrow>
               map fst params' = map fst params
               \<and> (\<exists>rest. snd (handle_http_v3 w req args kwargs lg allowed)
                     = LogicCalled args params' # rest))"
    using m dist law run by (intro exI [of _ ?params]) blast
next
  assume "(if req_mimetype req = ''application/json''
        \<and> req_method req \<in> {''POST'', ''PUT'', ''PATCH''}
      then req_json req else parse_params schema (req_values req) request_schema)
       = Inr (PDict d)"
  then have p: "http_params schema req request_schema kwargs = Inr (dict_update d kwargs)"
    by (simp add: http_params_def json_request_def HTTP_METHODS_WITH_JSON_BODY_def
        update_def)
  have law: "map_of (dict_update d kwargs) k =
      (case map_of (rev kwargs) k of Some v \<Rightarrow> Some v | None \<Rightarrow> map_of d k)" for k
    by (simp add: map_of_dict_update)
  have run: "\<exists>rest. snd (handle_http w schema req args kwargs exec request_schema
                               request_validator response_validator allowed)
                     = LogicCalled args (dict_update d kwargs) # rest"
    if "truthy request_schema
        \<and> validate_request schema request_validator (dict_update d kwargs) = Inr ()"
  proof -
    from that p have "http_call_params schema req request_schema request_validator kwargs
        = Inr (dict_update d kwargs)"
      by (simp add: http_call_params_def)
    then show ?thesis
      by (rule handle_http_calls)
  qed
  show "\<exists>params. http_params schema req request_schema kwargs = Inr params
         \<and> (\<forall>k. map_of params k =
               (case map_of (rev kwargs) k of Some v \<Rightarrow> Some v | None \<Rightarrow> map_of d k))
         \<and> (truthy request_schema
               \<and> validate_request schema request_validator params = Inr () \<longrightarrow>
               (\<exists>rest. snd (handle_http w schema req args kwargs exec request_schema
                               request_validator response_validator allowed)
                     = LogicCalled args params # rest))"
    using p law run by (intro exI [of _ "dict_update d kwargs"]) blast
next
  assume nt: "\<not> truthy request_schema"
  then show c: "http_call_params schema req request_schema request_validator kwargs
      = Inr kwargs"
    by (simp add: http_call_params_def)
  from nt have "http_call_params schema req request_schema request_validator kwargs
      = Inr kwargs"
    by (simp add: http_call_params_def)
  then show "\<exists>rest. snd (handle_http w schema req args kwargs exec request_schema
                       request_validator response_validator allowed)
            = LogicCalled args kwargs # rest"
    by (rule handle_http_calls)
qed

text \<open>
  A JSON POST of \<open>{"name": "a", "junk": 1}\<close> to \<open>create_foo\<close> on a route that
  captured \<open>name\<close>: \<open>junk\<close> is dropped, the captured \<open>name\<close> wins, and the logic function
  is called with \<open>name\<close> alone. The schema dispatcher with a request schema, on a GET
  with the same two values: both are kept, the captured \<open>name\<close> wins, and both reach
  the call; without a request schema the captured argument alone does.
\<close>

theorem parameter_source_filter_merge_witness:
  "(\<exists>params.
       merged_params (example_json ''POST'' (PDict [(''name'', PStr ''a''), (''junk'', PInt 1)]) [])
         (create_foo (Plain (PStr ''foo''))) [(''name'', PStr ''b'')] = Inr params
     \<and> map_of params ''name'' = Some (PStr ''b'')
     \<and> map_of params ''junk'' = None)
   \<and> (\<exists>rest.
       snd (handle_http_v3 example_world
              (example_json ''POST'' (PDict [(''name'', PStr ''a''), (''junk'', PInt 1)]) [])
              [] [(''name'', PStr ''b'')] (create_foo (Plain (PStr ''foo''))) None)
         = LogicCalled [] [(''name'', PStr ''b'')] # rest)
   \<and> (\<exists>params.
       http_params example_schema
         (example_json ''GET'' PNone [(''name'', PStr ''a''), (''junk'', PInt 1)])
         (PDict [(''type'', PStr ''object'')]) [(''name'', PStr ''b'')] = Inr params
     \<and> map_of params ''name'' = Some (PStr ''b'')
     \<and> map_of params ''junk'' = Some (PInt 1))
   \<and> (\<exists>rest.
       snd (handle_http example_world example_schema
              (example_json ''GET'' PNone [(''name'', PStr ''a''), (''junk'', PInt 1)])
              [] [(''name'', PStr ''b'')] (call (create_foo (Plain (PStr ''foo''))))
              (PDict [(''type'', PStr ''object'')]) None None None)
         = LogicCalled [] [(''name'', PStr ''b''), (''junk'', PInt 1)] # rest)
   \<and> http_call_params example_schema
       (example_json ''POST'' (PDict [(''name'', PStr ''a''), (''junk'', PInt 1)]) [])
       PNone None [(''foo_id'', PInt 7)]
     = Inr [(''foo_id'', PInt 7)]"
proof -
  let ?req = "example_json ''POST'' (PDict [(''name'', PStr ''a''), (''junk'', PInt 1)]) []"
  let ?get = "example_json ''GET'' PNone [(''name'', PStr ''a''), (''junk'', PInt 1)]"
  let ?lg = "create_foo (Plain (PStr ''foo''))"
  let ?kw = "[(''name'', PStr ''b'')]"
  let ?rs = "PDict [(''type'', PStr ''object'')]"
  have src: "(if req_mimetype ?req = ''application/json''
        \<and> req_method ?req \<in> {''POST'', ''PUT'', ''PATCH''}
     then req_json ?req else Inr (PDict (req_values ?req)))
       = Inr (PDict [(''name'', PStr ''a''), (''junk'', PInt 1)])"
    by (simp add: example_json_def)
  have al: "all (doctor_params ?lg) = [''name'']"
    by (simp add: create_foo_def)
  have mp: "merged_params ?req ?lg ?kw = Inr ?kw"
    by (simp add: merged_params_def request_params_def json_request_def example_json_def
        HTTP_METHODS_WITH_JSON_BODY_def items_def create_foo_def dict_update_def
        dict_of_items_def)
  have cr: "check_required (invalid_value_bases example_world) (required (doctor_params ?lg))
      ?kw = Inr ()"
    by (simp add: create_foo_def)
  have co: "coerce_params (parameters (doctor_signature ?lg)) ?kw = Inr ?kw"
    by (simp add: create_foo_def Name_def)
  from parameter_source_filter_merge [THEN conjunct1, rule_format, OF src,
      of ?lg ?kw example_world "[]" None]
  obtain params where p: "merged_params ?req ?lg ?kw = Inr params"
    and k: "\<And>k. map_of params k =
               (case map_of (rev ?kw) k of
                  Some v \<Rightarrow> Some v
                | None \<Rightarrow> if k \<in> set (all (doctor_params ?lg))
                          then map_of (rev [(''name'', PStr ''a''), (''junk'', PInt 1)]) k
                          else None)"
    and run: "\<And>params'.
               check_required (invalid_value_bases example_world)
                 (required (doctor_params ?lg)) params = Inr ()
               \<and> coerce_params (parameters (doctor_signature ?lg)) params = Inr params' \<Longrightarrow>
               \<exists>rest. snd (handle_http_v3 example_world ?req [] ?kw ?lg None)
                     = LogicCalled [] params' # rest"
    by blast
  have "map_of params ''name'' = Some (PStr ''b'')" "map_of params ''junk'' = None"
    by (simp_all add: k al)
  with p have first: "\<exists>params. merged_params ?req ?lg ?kw = Inr params
     \<and> map_of params ''name'' = Some (PStr ''b'')
     \<and> map_of params ''junk'' = None"
    by blast
  from p mp have pe: "params = ?kw"
    by simp
  from run [of ?kw] cr co
  have second: "\<exists>rest. snd (handle_http_v3 example_world ?req [] ?kw ?lg None)
      = LogicCalled [] ?kw # rest"
    by (simp add: pe)
  have src': "(if req_mimetype ?get = ''application/json''
        \<and> req_method ?get \<in> {''POST'', ''PUT'', ''PATCH''}
      then req_json ?get
      else parse_params example_schema (req_values ?get) ?rs)
       = Inr (PDict [(''name'', PStr ''a''), (''junk'', PInt 1)])"
    by (simp add: example_json_def example_schema_def)
  have hp: "http_params example_schema ?get ?rs ?kw
      = Inr [(''name'', PStr ''b''), (''junk'', PInt 1)]"
    by (simp add: http_params_def json_request_def example_json_def example_schema_def
        HTTP_METHODS_WITH_JSON_BODY_def update_def dict_update_def)
  from parameter_source_filter_merge [THEN conjunct2, THEN conjunct1, rule_format, OF src',
      of ?kw None example_world "[]" "call ?lg" None None]
  obtain params' where p': "http_params example_schema ?get ?rs ?kw = Inr params'"
    and k': "\<And>k. map_of params' k =
               (case map_of (rev ?kw) k of
                  Some v \<Rightarrow> Some v
                | None \<Rightarrow> map_of [(''name'', PStr ''a''), (''junk'', PInt 1)] k)"
    and run': "truthy ?rs \<and> validate_request example_schema None params' = Inr () \<Longrightarrow>
               \<exists>rest. snd (handle_http example_world example_schema ?get [] ?kw (call ?lg)
                               ?rs None None None)
                     = LogicCalled [] params' # rest"
    by blast
  have "map_of params' ''name'' = Some (PStr ''b'')" "map_of params' ''junk'' = Some (PInt 1)"
    by (simp_all add: k')
  with p' have third: "\<exists>params. http_params example_schema ?get ?rs ?kw = Inr params
     \<and> map_of params ''name'' = Some (PStr ''b'')
     \<and> map_of params ''junk'' = Some (PInt 1)"
    by blast
  from p' hp have pe': "params' = [(''name'', PStr ''b''), (''junk'', PInt 1)]"
    by simp
  have "truthy ?rs \<and> validate_request example_schema None params' = Inr ()"
    by (simp add: validate_request_def)
  from run' [OF this]
  have fourth: "\<exists>rest. snd (handle_http example_world example_schema ?get [] ?kw (call ?lg)
                               ?rs None None None)
      = LogicCalled [] [(''name'', PStr ''b''), (''junk'', PInt 1)] # rest"
    by (simp add: pe')
  have nt: "\<not> truthy PNone"
    by simp
  from parameter_source_filter_merge [THEN conjunct2, THEN conjunct2, rule_format, OF nt,
      THEN conjunct1]
  have fifth: "http_call_params example_schema ?req PNone None [(''foo_id'', PInt 7)]
      = Inr [(''foo_id'', PInt 7)]" .
  from first second third fourth fifth show ?thesis
    by (intro conjI)
qed

text \<open>
  The claim as worded fails in schema mode. The same JSON POST of
  \<open>{"name": "a", "junk": 1}\<close> to \<open>create_foo\<close>: \<open>handle_http_v3\<close> drops \<open>junk\<close> and
  answers 201, while \<open>handle_http\<close>, with a request schema declared, hands \<open>junk\<close> on
  to the call, which \<open>create_foo(name)\<close> refuses with TypeError, and the answer is the
  500 of the catch-all.
\<close>

theorem schema_mode_does_not_filter:
  "''junk'' \<notin> set (all (doctor_params (create_foo (Plain (PStr ''foo'')))))
   \<and> handle_http_v3 example_world
       (example_json ''POST'' (PDict [(''name'', PStr ''a''), (''junk'', PInt 1)]) []) [] []
       (create_foo (Plain (PStr ''foo''))) None
     = (Inr (Reply2 (PStr ''foo'') 201), [LogicCalled [] [(''name'', PStr ''a'')]])
   \<and> handle_http example_world example_schema
       (example_json ''POST'' (PDict [(''name'', PStr ''a''), (''junk'', PInt 1)]) []) [] []
       (call (create_foo (Plain (PStr ''foo''))))
       (PDict [(''type'', PStr ''object'')]) None None None
     = (Inl (Http (SchematicHTTPException HTTP500Exception
                     (Text ''Uncaught error in logic function'') None)),
        [LogicCalled [] [(''name'', PStr ''a''), (''junk'', PInt 1)],
         LogException (TypeError ''unexpected keyword argument'')])"
proof -
  let ?req = "example_json ''POST'' (PDict [(''name'', PStr ''a''), (''junk'', PInt 1)]) []"
  let ?lg = "create_foo (Plain (PStr ''foo''))"
  have post: "''POST'' \<in> set HTTP_METHODS_WITH_JSON_BODY"
    by (simp add: HTTP_METHODS_WITH_JSON_BODY_def)
  have a: "''junk'' \<notin> set (all (doctor_params ?lg))"
    by (simp add: create_foo_def)
  have m: "req_method (example_json ''POST'' body q) = ''POST''" for body q
    by (simp add: example_json_def)
  have b: "handle_http_v3 example_world ?req [] [] ?lg None
      = (Inr (Reply2 (PStr ''foo'') 201), [LogicCalled [] [(''name'', PStr ''a'')]])"
    by (simp add: create_foo_post [OF post] Foo_def content_of_def shape_reply_def
        status_for_verb m split: retval.split)
  have body: "http_body example_world example_schema ?req [] [] (call ?lg)
        (PDict [(''type'', PStr ''object'')]) None None
      = (Inl (TypeError ''unexpected keyword argument''),
         [LogicCalled [] [(''name'', PStr ''a''), (''junk'', PInt 1)]])"
    by (simp add: create_foo_def call_function_def http_body_def http_call_params_def
        http_params_def json_request_def HTTP_METHODS_WITH_JSON_BODY_def example_json_def
        update_def dict_update_def validate_request_def)
  have ex: "except_http False None (TypeError ''unexpected keyword argument'')
      = (Http (SchematicHTTPException HTTP500Exception
                 (Text ''Uncaught error in logic function'') None),
         [LogException (TypeError ''unexpected keyword argument'')])"
    by (simp add: except_http_def except_auth_chain_def catch_all_def allowed_match_def
        isinstance_def TypeError_def builtin_error_def)
  have c: "handle_http example_world example_schema ?req [] [] (call ?lg)
        (PDict [(''type'', PStr ''object'')]) None None None
      = (Inl (Http (SchematicHTTPException HTTP500Exception
                     (Text ''Uncaught error in logic function'') None)),
        [LogicCalled [] [(''name'', PStr ''a''), (''junk'', PInt 1)],
         LogException (TypeError ''unexpected keyword argument'')])"
    unfolding handle_http_def body translate_Inl
    by (simp add: example_world_def ex)
  from a b c show ?thesis
    by (intro conjI)
qed

section \<open>The logged response text\<close>

lemma truncate_response_long:
  "length s > n \<Longrightarrow> truncate_response n s = take n s @ ''...''"
  by (simp add: truncate_response_def)

lemma truncate_response_short:
  "length s \<le> n \<Longrightarrow> truncate_response n s = s"
  by (simp add: truncate_response_def)

lemma validate_response_v3_effects:
  "snd (validate_response_v3 w req sig response) = []
   \<or> (\<exists>e. snd (validate_response_v3 w req sig response)
         = [LogWarning (req_method req) (req_path req)
              (truncate_response (MAX_RESPONSE_LENGTH w) (str_of w (content_of response))) e])"
  by (simp add: validate_response_v3_def split: option.split sum.split)

lemma validate_response_http_effects:
  "snd (validate_response_http w schema req pv response) = []
   \<or> (\<exists>e. snd (validate_response_http w schema req pv response)
         = [LogWarning (req_method req) (req_path req)
              (truncate_response (MAX_RESPONSE_LENGTH w) (text_type w response)) e])"
  by (simp add: validate_response_http_def split: option.split sum.split)

lemma v3_body_warning:
  assumes "LogWarning m p text ex \<in> set (snd (v3_body w req args kwargs lg))"
  shows "\<exists>params response. call lg args params = Inr response
           \<and> LogicCalled args params \<in> set (snd (v3_body w req args kwargs lg))
           \<and> text = truncate_response (MAX_RESPONSE_LENGTH w) (str_of w (content_of response))"
proof -
  from assms obtain params' response where
    c: "call lg args params' = Inr response"
    and l: "LogicCalled args params' \<in> set (snd (v3_body w req args kwargs lg))"
    and "LogWarning m p text ex
           \<in> set (snd (validate_response_v3 w req (doctor_signature lg) response))"
    by (auto simp: v3_body_def split: sum.splits prod.splits)
  with validate_response_v3_effects [of w req "doctor_signature lg" response]
  have "text = truncate_response (MAX_RESPONSE_LENGTH w) (str_of w (content_of response))"
    by auto
  with c l show ?thesis
    by blast
qed

lemma http_body_warning:
  assumes "LogWarning m p text ex
             \<in> set (snd (http_body w schema req args kwargs exec rs rv pv))"
  shows "\<exists>params response. exec args params = Inr response
           \<and> LogicCalled args params
               \<in> set (snd (http_body w schema req args kwargs exec rs rv pv))
           \<and> text = truncate_response (MAX_RESPONSE_LENGTH w) (text_type w response)"
proof -
  from assms obtain params response where
    c: "exec args params = Inr response"
    and l: "LogicCalled args params
              \<in> set (snd (http_body w schema req args kwargs exec rs rv pv))"
    and "LogWarning m p text ex
           \<in> set (snd (validate_response_http w schema req pv response))"
    by (auto simp: http_body_def split: sum.splits prod.splits)
  with validate_response_http_effects [of w schema req pv response]
  have "text = truncate_response (MAX_RESPONSE_LENGTH w) (text_type w response)"
    by auto
  with c l show ?thesis
    by blast
qed

lemma catch_all_no_warning: "LogWarning m p text ex \<notin> set (snd (catch_all debug allowed e))"
  by (simp add: catch_all_def)

lemma except_v3_no_warning: "LogWarning m p text ex \<notin> set (snd (except_v3 debug allowed e))"
  by (simp add: except_v3_def except_auth_chain_def wrap_http_def catch_all_no_warning)

lemma except_http_no_warning:
  "LogWarning m p text ex \<notin> set (snd (except_http debug allowed e))"
  by (simp add: except_http_def except_auth_chain_def wrap_http_def catch_all_no_warning)

lemma translate_warning:
  assumes "\<And>e. LogWarning m p text ex \<notin> set (snd (h e))"
    and "LogWarning m p text ex \<in> set (snd (translate h res))"
  shows "LogWarning m p text ex \<in> set (snd res)"
proof -
  obtain a fx where res: "res = (a, fx)"
    by (cases res)
  show ?thesis
    using assms(2) by (cases a) (simp_all add: res translate_Inl translate_Inr assms(1))
qed

text \<open>
  C7. Every warning a handler logs carries the stringified response \<open>s\<close> of the logic
  call recorded in the same trace (the returned content for \<open>handle_http_v3\<close>, the
  returned object for \<open>handle_http\<close>) cut to the limit: when \<open>s\<close> is longer than \<open>MAX_RESPONSE_LENGTH\<close>
  the logged text is the first \<open>MAX_RESPONSE_LENGTH\<close> characters of \<open>s\<close> followed by
  \<open>...\<close>, of length \<open>MAX_RESPONSE_LENGTH + 3\<close>; otherwise it is \<open>s\<close> itself.
\<close>

theorem logged_response_is_truncated:
  "(LogWarning m p text ex \<in> set (snd (handle_http_v3 w req args kwargs lg allowed)) \<longrightarrow>
      (\<exists>params response. call lg args params = Inr response
         \<and> LogicCalled args params
             \<in> set (snd (handle_http_v3 w req args kwargs lg allowed))
         \<and> (let s = str_of w (content_of response); n = MAX_RESPONSE_LENGTH w
            in (length s > n \<longrightarrow> text = take n s @ ''...'' \<and> length text = n + 3)
             \<and> (length s \<le> n \<longrightarrow> text = s))))
 \<and> (LogWarning m p text ex
       \<in> set (snd (handle_http w schema req args kwargs exec rs rv pv allowed)) \<longrightarrow>
      (\<exists>params response. exec args params = Inr response
         \<and> LogicCalled args params
             \<in> set (snd (handle_http w schema req args kwargs exec rs rv pv allowed))
         \<and> (let s = text_type w response; n = MAX_RESPONSE_LENGTH w
            in (length s > n \<longrightarrow> text = take n s @ ''...'' \<and> length text = n + 3)
             \<and> (length s \<le> n \<longrightarrow> text = s))))"
proof (intro conjI impI)
  assume "LogWarning m p text ex \<in> set (snd (handle_http_v3 w req args kwargs lg allowed))"
  then have "LogWarning m p text ex \<in> set (snd (v3_body w req args kwargs lg))"
    unfolding handle_http_v3_def by (rule translate_warning [OF except_v3_no_warning])
  from v3_body_warning [OF this] obtain params response where
    c: "call lg args params = Inr response"
    and lb: "LogicCalled args params \<in> set (snd (v3_body w req args kwargs lg))"
    and t: "text = truncate_response (MAX_RESPONSE_LENGTH w) (str_of w (content_of response))"
    by blast
  from translate_effects_prefix obtain rest where
    "snd (handle_http_v3 w req args kwargs lg allowed)
       = snd (v3_body w req args kwargs lg) @ rest"
    unfolding handle_http_v3_def by blast
  with lb have l: "LogicCalled args params
      \<in> set (snd (handle_http_v3 w req args kwargs lg allowed))"
    by simp
  show "\<exists>params response. call lg args params = Inr response
         \<and> LogicCalled args params
             \<in> set (snd (handle_http_v3 w req args kwargs lg allowed))
         \<and> (let s = str_of w (content_of response); n = MAX_RESPONSE_LENGTH w
            in (length s > n \<longrightarrow> text = take n s @ ''...'' \<and> length text = n + 3)
             \<and> (length s \<le> n \<longrightarrow> text = s))"
    using c l by (intro exI [of _ params] exI [of _ response])
      (simp add: t Let_def truncate_response_def)
next
  assume "LogWarning m p text ex
       \<in> set (snd (handle_http w schema req args kwargs exec rs rv pv allowed))"
  then have "LogWarning m p text ex
       \<in> set (snd (http_body w schema req args kwargs exec rs rv pv))"
    unfolding handle_http_def by (rule translate_warning [OF except_http_no_warning])
  from http_body_warning [OF this] obtain params response where
    c: "exec args params = Inr response"
    and lb: "LogicCalled args params
               \<in> set (snd (http_body w schema req args kwargs exec rs rv pv))"
    and t: "text = truncate_response (MAX_RESPONSE_LENGTH w) (text_type w response)"
    by blast
  from translate_effects_prefix obtain rest where
    "snd (handle_http w schema req args kwargs exec rs rv pv allowed)
       = snd (http_body w schema req args kwargs exec rs rv pv) @ rest"
    unfolding handle_http_def by blast
  with lb have l: "LogicCalled args params
      \<in> set (snd (handle_http w schema req args kwargs exec rs rv pv allowed))"
    by simp
  show "\<exists>params response. exec args params = Inr response
         \<and> LogicCalled args params
             \<in> set (snd (handle_http w schema req args kwargs exec rs rv pv allowed))
         \<and> (let s = text_type w response; n = MAX_RESPONSE_LENGTH w
            in (length s > n \<longrightarrow> text = take n s @ ''...'' \<and> length text = n + 3)
             \<and> (length s \<le> n \<longrightarrow> text = s))"
    using c l by (intro exI [of _ params] exI [of _ response])
      (simp add: t Let_def truncate_response_def)
qed

lemma should_raise_iff:
  "should_raise_response_validation_errors w
     \<longleftrightarrow> app_debug w \<or> (\<exists>s. environ_raise w = Some s \<and> s \<noteq> [])"
  by (simp add: should_raise_response_validation_errors_def split: option.split)

text \<open>
  A logic function without parameters that returns a string although its return
  annotation is \<open>FooId\<close>, on a GET: the failed validation is logged and, the policy
  being off, the value is returned with status 200.
\<close>

lemma example_soft_failure:
  assumes "\<not> should_raise_response_validation_errors w"
  shows "handle_http_v3 w example_get [] []
           (no_params (Inr (Plain (PStr s))) (Some FooId)) None
         = (Inr (Reply2 (PStr s) 200),
            [LogicCalled [] [],
             LogWarning ''GET'' ''/foo''
               (truncate_response (MAX_RESPONSE_LENGTH w) (str_of w (PStr s)))
               (type_system_error ''Must be a number.'')])"
  using assms
  by (simp add: handle_http_v3_def v3_body_def merged_params_def request_params_def
      json_request_def example_get_def no_params_def call_function_def dict_update_def dict_of_items_def
      validate_response_v3_def content_of_def FooId_def isinstance_def
      type_system_error_def translate_Inr shape_reply_def status_for_verb)

theorem logged_response_is_truncated_witness:
  "(\<exists>params response.
      call (no_params (Inr (Plain (PStr ''0123456789abc''))) (Some FooId)) [] params
        = Inr response
    \<and> ''01234567...'' = take 8 (str_of example_world (content_of response)) @ ''...'')
   \<and> (\<exists>params response.
      call (no_params (Inr (Plain (PStr ''short''))) None) [] params = Inr response
    \<and> ''short'' = text_type example_world response)"
proof -
  let ?lg = "no_params (Inr (Plain (PStr ''0123456789abc''))) (Some FooId)"
  let ?lg' = "no_params (Inr (Plain (PStr ''short''))) None"
  have off: "\<not> should_raise_response_validation_errors example_world"
    by (simp add: should_raise_iff example_world_def)
  have n: "MAX_RESPONSE_LENGTH example_world = 8"
    and s: "str_of example_world (PStr ''0123456789abc'') = ''0123456789abc''"
    and s': "text_type example_world (Plain (PStr ''short'')) = ''short''"
    by (simp_all add: example_world_def)
  have "LogWarning ''GET'' ''/foo'' ''01234567...'' (type_system_error ''Must be a number.'')
      \<in> set (snd (handle_http_v3 example_world example_get [] [] ?lg None))"
    by (simp add: example_soft_failure [OF off] n s truncate_response_def)
  from logged_response_is_truncated [THEN conjunct1, rule_format, OF this]
  obtain params response where c: "call ?lg [] params = Inr response"
    and t: "let s = str_of example_world (content_of response);
                n = MAX_RESPONSE_LENGTH example_world
            in (length s > n \<longrightarrow> ''01234567...'' = take n s @ ''...''
                  \<and> length ''01234567...'' = n + 3)
             \<and> (length s \<le> n \<longrightarrow> ''01234567...'' = s)"
    by blast
  from c have r: "response = Plain (PStr ''0123456789abc'')"
    by (simp add: no_params_def call_function_def split: if_splits)
  from t have "''01234567...'' = take 8 (str_of example_world (content_of response)) @ ''...''"
    by (simp add: r n s content_of_def Let_def)
  with c have first: "\<exists>params response. call ?lg [] params = Inr response
      \<and> ''01234567...'' = take 8 (str_of example_world (content_of response)) @ ''...''"
    by blast
  have "handle_http example_world (rejecting_schema False) example_get [] [] (call ?lg')
          PNone None (Some ''response'') None
        = (Inr (Reply2 (PStr ''short'') 200),
           [LogicCalled [] [],
            LogWarning ''GET'' ''/foo'' ''short'' schema_validation_error])"
    by (simp add: handle_http_def http_body_def http_call_params_def no_params_def call_function_def
        validate_response_http_def rejecting_schema_def schema_validation_error_def
        isinstance_def translate_Inr shape_reply_def status_for_verb example_get_def
        truncate_response_def n s')
  then have "LogWarning ''GET'' ''/foo'' ''short'' schema_validation_error
      \<in> set (snd (handle_http example_world (rejecting_schema False) example_get [] []
                     (call ?lg') PNone None (Some ''response'') None))"
    by simp
  from logged_response_is_truncated [THEN conjunct2, rule_format, OF this]
  obtain params' response' where c': "call ?lg' [] params' = Inr response'"
    and t': "let s = text_type example_world response';
                 n = MAX_RESPONSE_LENGTH example_world
             in (length s > n \<longrightarrow> ''short'' = take n s @ ''...''
                   \<and> length ''short'' = n + 3)
              \<and> (length s \<le> n \<longrightarrow> ''short'' = s)"
    by blast
  from c' have r': "response' = Plain (PStr ''short'')"
    by (simp add: no_params_def call_function_def split: if_splits)
  from t' have "''short'' = text_type example_world response'"
    by (simp add: r' n s' Let_def)
  with c' have second: "\<exists>params response. call ?lg' [] params = Inr response
      \<and> ''short'' = text_type example_world response"
    by blast
  from first second show ?thesis
    by (intro conjI)
qed

section \<open>Soft response validation and the raise policy\<close>

text \<open>
  A response that fails validation with the policy off: the warning is logged and the
  reply is the normal one.
\<close>

lemma soft_validation_v3:
  assumes "return_annotation sig = Some ann" and "ann (content_of response) = Inl e"
    and "isinstance e ''TypeSystemError''"
    and "\<not> should_raise_response_validation_errors w"
  shows "validate_response_v3 w req sig response
         = (Inr (),
            [LogWarning (req_method req) (req_path req)
               (truncate_response (MAX_RESPONSE_LENGTH w) (str_of w (content_of response))) e])"
  using assms by (simp add: validate_response_v3_def)

lemma soft_validation_http:
  assumes "validate schema (content_of response) rv = Inl e"
    and "isinstance e ''SchemaValidationError''"
    and "\<not> raise_response_validation_errors schema"
  shows "validate_response_http w schema req (Some rv) response
         = (Inr (),
            [LogWarning (req_method req) (req_path req)
               (truncate_response (MAX_RESPONSE_LENGTH w) (text_type w response)) e])"
  using assms by (simp add: validate_response_http_def)

lemma hard_validation_v3:
  assumes "return_annotation sig = Some ann" and "ann (content_of response) = Inl e"
    and "isinstance e ''TypeSystemError''"
    and "should_raise_response_validation_errors w"
  shows "fst (validate_response_v3 w req sig response) = Inl e"
  using assms by (simp add: validate_response_v3_def)

lemma hard_validation_http:
  assumes "validate schema (content_of response) rv = Inl e"
    and "isinstance e ''SchemaValidationError''"
    and "raise_response_validation_errors schema"
  shows "fst (validate_response_http w schema req (Some rv) response) = Inl e"
  using assms by (simp add: validate_response_http_def)

text \<open>
  C6, at the input where the code leaves its documentation: the environment variable
  \<open>RAISE_RESPONSE_VALIDATION_ERRORS\<close> is set, to the empty string, and DEBUG is off.
  \<open>should_raise_response_validation_errors\<close> answers False, and the response that
  fails validation is returned with status 200.
\<close>

theorem empty_environment_value_does_not_raise:
  "environ_raise (example_world\<lparr>environ_raise := Some ''''\<rparr>) = Some ''''
   \<and> should_raise_response_validation_errors (example_world\<lparr>environ_raise := Some ''''\<rparr>)
       = False
   \<and> should_raise_response_validation_errors (example_world\<lparr>environ_raise := Some ''0''\<rparr>)
       = True
   \<and> handle_http_v3 (example_world\<lparr>environ_raise := Some ''''\<rparr>) example_get [] []
       (no_params (Inr (Plain (PStr ''0123456789abc''))) (Some FooId)) None
     = (Inr (Reply2 (PStr ''0123456789abc'') 200),
        [LogicCalled [] [],
         LogWarning ''GET'' ''/foo'' ''01234567...'' (type_system_error ''Must be a number.'')])"
proof -
  let ?w = "example_world\<lparr>environ_raise := Some ''''\<rparr>"
  have off: "\<not> should_raise_response_validation_errors ?w"
    by (simp add: should_raise_iff example_world_def)
  have on: "should_raise_response_validation_errors (example_world\<lparr>environ_raise := Some ''0''\<rparr>)"
    by (simp add: should_raise_iff)
  have "truncate_response (MAX_RESPONSE_LENGTH ?w) (str_of ?w (PStr ''0123456789abc''))
      = ''01234567...''"
    by (simp add: example_world_def truncate_response_def)
  with example_soft_failure [OF off, of "''0123456789abc''"] off on show ?thesis
    by simp
qed

section \<open>Synthesized callables and the arity of handle_http\<close>

lemma invoke_fails:
  "invoke body f handler args kwargs = Inl (TypeError ''missing required positional arguments'')"
  by (cases f) (simp add: call_positional_def handle_http_parameters_def)

text \<open>
  C9. A callable of a handler type that \<open>create_routes\<close> produced closes over a logic
  function and, when invoked, calls \<open>handle_http\<close> with the four positional arguments
  handler, args, kwargs and logic; \<open>handle_http\<close> declares nine parameters, none with a
  default; so the invocation raises TypeError whatever the body of \<open>handle_http\<close> is,
  that is, before the body runs, and whatever the arguments are.
\<close>

theorem synthesized_callable_arity_error:
  assumes "create_routes routes = Inr created"
    and "(path, Some t) \<in> set created"
    and "(verb, Callable f) \<in> set (type_attrs t)"
  shows "\<exists>lg. f = Fn lg
           \<and> invoke body f handler args kwargs
               = call_positional handle_http_parameters
                   [HandlerArg handler, ArgsArg args, KwargsArg kwargs, LogicArg lg] body
           \<and> length [HandlerArg handler, ArgsArg args, KwargsArg kwargs, LogicArg lg] = 4
           \<and> length handle_http_parameters = 9
           \<and> invoke body f handler args kwargs
               = Inl (TypeError ''missing required positional arguments'')"
proof -
  obtain lg where f: "f = Fn lg"
    by (cases f)
  show ?thesis
    by (intro exI [of _ lg]) (simp add: f invoke_fails [of body "Fn lg", simplified]
        call_positional_def handle_http_parameters_def)
qed

lemma foo_routes_created:
  "create_routes (foo_routes MyHandler) =
     Inr [(''^/foo/?$'',
           Some \<lparr>type_name = ''MyHandler'', type_base = MyHandler,
                 type_attrs =
                   [(''__name__'', NameAttr ''MyHandler''),
                    (''_doctor_heading'', HeadingAttr None),
                    (''get'', Callable (Fn (no_params (Inr (Plain (PStr []))) None))),
                    (''post'', Callable (Fn (create_foo (Plain (PStr [])))))],
                 type_methods = MethodList [''GET'', ''POST'']\<rparr>),
          (''^/bar/?$'', None)]"
  by (simp add: foo_routes_def create_handler_def add_method_def
      handler_name_or_def get_def post_def create_http_method_def MyHandler_def
      http_method_funcs_def upper_def upper_char_def Let_def)

text \<open>
  The \<open>post\<close> callable of the handler built for \<open>^/foo/?$\<close>, invoked on any instance
  with a body that would answer, raises TypeError.
\<close>

theorem synthesized_callable_arity_error_witness:
  "invoke (\<lambda>bound. Reply2 PNone 201) (Fn (create_foo (Plain (PStr [])))) ''self'' []
       [(''name'', PStr ''a'')]
     = Inl (TypeError ''missing required positional arguments'')"
proof -
  let ?t = "\<lparr>type_name = ''MyHandler'', type_base = MyHandler,
             type_attrs =
               [(''__name__'', NameAttr ''MyHandler''), (''_doctor_heading'', HeadingAttr None),
                (''get'', Callable (Fn (no_params (Inr (Plain (PStr []))) None))),
                (''post'', Callable (Fn (create_foo (Plain (PStr [])))))],
             type_methods = MethodList [''GET'', ''POST'']\<rparr>"
  have a: "(''^/foo/?$'', Some ?t) \<in> set [(''^/foo/?$'', Some ?t), (''^/bar/?$'', None)]"
    by simp
  have b: "(''post'', Callable (Fn (create_foo (Plain (PStr []))))) \<in> set (type_attrs ?t)"
    by simp
  from synthesized_callable_arity_error [OF foo_routes_created a b,
      of "\<lambda>bound. Reply2 PNone 201" "''self''" "[]" "[(''name'', PStr ''a'')]"]
  show ?thesis
    by blast
qed

section \<open>What create_routes returns\<close>

lemma add_method_None:
  "add_method r m None =
     Inr (Some \<lparr>type_name = handler_name_or r (method_logic m),
           type_base = base_handler_class r,
           type_attrs =
             dict_set
               (dict_set (dict_set [] ''__name__'' (NameAttr (handler_name_or r (method_logic m))))
                  ''_doctor_heading'' (HeadingAttr (heading r)))
               (method_name m) (Callable (Fn (method_logic m))),
           type_methods = methods_at_creation (base_handler_class r) (method_name m)\<rparr>)"
  by (simp add: add_method_def create_http_method_def Let_def)

text \<open>The later methods, on a type that exists, by what its \<open>methods\<close> attribute is.\<close>

lemma add_methods_no_attribute:
  "type_methods h = NoAttribute \<Longrightarrow>
     add_methods r ms (Some h) =
       Inr (Some (h\<lparr>type_attrs :=
                     fold (\<lambda>b a. dict_set a (method_name b) (Callable (Fn (method_logic b))))
                       ms (type_attrs h)\<rparr>))"
proof (induction ms arbitrary: h)
  case Nil
  then show ?case by simp
next
  case (Cons m ms)
  then show ?case
    by (simp add: add_method_def create_http_method_def Let_def)
qed

lemma add_methods_list:
  "type_methods h = MethodList l \<Longrightarrow>
     add_methods r ms (Some h) =
       Inr (Some (h\<lparr>type_attrs :=
                     fold (\<lambda>b a. dict_set a (method_name b) (Callable (Fn (method_logic b))))
                       ms (type_attrs h),
                   type_methods := MethodList (l @ map (\<lambda>b. upper (method_name b)) ms)\<rparr>))"
proof (induction ms arbitrary: h l)
  case Nil
  then show ?case by simp
next
  case (Cons m ms)
  then show ?case
    by (simp add: add_method_def create_http_method_def Let_def)
qed

lemma add_methods_not_a_list:
  "type_methods h = NotAList \<Longrightarrow>
     add_methods r ms (Some h) =
       (if ms = [] then Inr (Some h)
        else Inl (AttributeError ''object has no attribute append''))"
  by (cases ms) (simp_all add: add_method_def Let_def)

lemma map_of_fold_dict_set:
  "map_of (fold (\<lambda>b a. dict_set a (key b) (val b)) ms a) v =
     (if filter (\<lambda>x. key x = v) ms = [] then map_of a v
      else Some (val (last (filter (\<lambda>x. key x = v) ms))))"
proof (induction ms arbitrary: a)
  case Nil
  then show ?case by simp
next
  case (Cons m ms)
  show ?case
    by (simp add: Cons.IH map_of_dict_set)
qed

text \<open>The handler of a route with methods \<open>m # ms\<close>, when the loop runs through.\<close>

lemma built_handler_as_specified:
  assumes ms: "methods r = m # ms"
    and t: "t = \<lparr>type_name = handler_name_or r (method_logic m),
                 type_base = base_handler_class r,
                 type_attrs =
                   fold (\<lambda>b a. dict_set a (method_name b) (Callable (Fn (method_logic b))))
                     ms
                     (dict_set
                        (dict_set
                           (dict_set [] ''__name__''
                              (NameAttr (handler_name_or r (method_logic m))))
                           ''_doctor_heading'' (HeadingAttr (heading r)))
                        (method_name m) (Callable (Fn (method_logic m)))),
                 type_methods = tm\<rparr>"
    and tm: "tm = (case methods_at_creation (base_handler_class r) (method_name m) of
                    MethodList ms0 \<Rightarrow> MethodList (ms0 @ map (\<lambda>b. upper (method_name b)) ms)
                  | other \<Rightarrow> other)"
  shows "handler_as_specified r (Some t)"
proof -
  have look: "map_of (type_attrs t) (method_name b) =
      Some (Callable (Fn (method_logic
        (last (filter (\<lambda>x. method_name x = method_name b) (m # ms))))))"
    if "b \<in> set (m # ms)" for b
  proof (cases "filter (\<lambda>x. method_name x = method_name b) ms = []")
    case True
    with that have "method_name m = method_name b"
      by (auto simp: filter_empty_conv)
    with True show ?thesis
      by (simp add: t map_of_fold_dict_set [where key = method_name
            and val = "\<lambda>b. Callable (Fn (method_logic b))"] map_of_dict_set)
  next
    case False
    then show ?thesis
      by (simp add: t map_of_fold_dict_set [where key = method_name
            and val = "\<lambda>b. Callable (Fn (method_logic b))"])
  qed
  have "type_base t = base_handler_class r"
    and "type_name t = handler_name_or r (method_logic m)"
    and "type_methods t = tm"
    by (simp_all add: t)
  with look show ?thesis
    unfolding handler_as_specified_def ms
    by (simp add: tm handler_name_or_def split: option.split)
qed

lemma create_handler_cases:
  "create_handler r =
     (if appends_to_lists_only r then create_handler r
      else Inl (AttributeError ''object has no attribute append''))
   \<and> (appends_to_lists_only r \<longrightarrow>
        (\<exists>handler. create_handler r = Inr handler \<and> handler_as_specified r handler))"
proof (cases "methods r")
  case Nil
  then show ?thesis
    by (simp add: create_handler_def appends_to_lists_only_def handler_as_specified_def)
next
  case (Cons m ms)
  let ?a0 = "dict_set
               (dict_set (dict_set [] ''__name__'' (NameAttr (handler_name_or r (method_logic m))))
                  ''_doctor_heading'' (HeadingAttr (heading r)))
               (method_name m) (Callable (Fn (method_logic m)))"
  let ?t0 = "\<lparr>type_name = handler_name_or r (method_logic m),
              type_base = base_handler_class r, type_attrs = ?a0,
              type_methods = methods_at_creation (base_handler_class r) (method_name m)\<rparr>"
  let ?attrs = "fold (\<lambda>b a. dict_set a (method_name b) (Callable (Fn (method_logic b))))
                  ms ?a0"
  have h: "create_handler r = add_methods r ms (Some ?t0)"
    by (simp add: create_handler_def Cons add_method_None)
  show ?thesis
  proof (cases "methods_at_creation (base_handler_class r) (method_name m)")
    case NoAttribute
    then have c: "create_handler r = Inr (Some (?t0\<lparr>type_attrs := ?attrs\<rparr>))"
      by (simp add: h add_methods_no_attribute)
    have "handler_as_specified r (Some (?t0\<lparr>type_attrs := ?attrs\<rparr>))"
      by (rule built_handler_as_specified [OF Cons, where tm = NoAttribute])
        (simp_all add: NoAttribute)
    with c show ?thesis
      by (cases ms) (simp_all add: appends_to_lists_only_def Cons NoAttribute)
  next
    case (MethodList l)
    let ?tm = "MethodList (l @ map (\<lambda>b. upper (method_name b)) ms)"
    from MethodList have c: "create_handler r
        = Inr (Some (?t0\<lparr>type_attrs := ?attrs, type_methods := ?tm\<rparr>))"
      by (simp add: h add_methods_list)
    have "handler_as_specified r (Some (?t0\<lparr>type_attrs := ?attrs, type_methods := ?tm\<rparr>))"
      by (rule built_handler_as_specified [OF Cons, where tm = ?tm])
        (simp_all add: MethodList)
    with c show ?thesis
      by (cases ms) (simp_all add: appends_to_lists_only_def Cons MethodList)
  next
    case NotAList
    then have c: "create_handler r =
        (if ms = [] then Inr (Some ?t0)
         else Inl (AttributeError ''object has no attribute append''))"
      by (simp add: h add_methods_not_a_list)
    show ?thesis
    proof (cases ms)
      case Nil
      have "handler_as_specified r (Some ?t0)"
        by (rule built_handler_as_specified [OF Cons, where tm = NotAList])
          (simp_all add: NotAList Nil)
      with c Nil show ?thesis
        by (simp add: appends_to_lists_only_def Cons)
    next
      case (Cons m' ms')
      with c show ?thesis
        by (simp add: appends_to_lists_only_def \<open>methods r = m # ms\<close> NotAList)
    qed
  qed
qed

lemma create_handler_returns:
  "appends_to_lists_only r \<Longrightarrow>
     \<exists>handler. create_handler r = Inr handler \<and> handler_as_specified r handler"
  using create_handler_cases [of r] by blast

lemma create_handler_raises:
  "\<not> appends_to_lists_only r \<Longrightarrow>
     create_handler r = Inl (AttributeError ''object has no attribute append'')"
  using create_handler_cases [of r] by (simp split: if_splits)


lemma create_routes_raises:
  "\<not> list_all appends_to_lists_only routes \<Longrightarrow>
     create_routes routes = Inl (AttributeError ''object has no attribute append'')"
proof (induction routes)
  case Nil
  then show ?case by simp
next
  case (Cons r rs)
  show ?case
  proof (cases "appends_to_lists_only r")
    case True
    with create_handler_returns [of r] obtain handler where
      "create_handler r = Inr handler"
      by blast
    with True Cons show ?thesis
      by simp
  next
    case False
    then show ?thesis
      by (simp add: create_handler_raises)
  qed
qed

text \<open>
  The route whose first verb Flask does not collect: the second verb meets
  \<open>methods = None\<close> and \<open>create_routes\<close> raises AttributeError.
\<close>

lemma second_verb_on_non_list_raises:
  "create_routes frob_routes = Inl (AttributeError ''object has no attribute append'')"
  by (rule create_routes_raises)
    (simp add: frob_routes_def appends_to_lists_only_def MyHandler_def
      http_method_funcs_def get_def)




section \<open>The resolved parameter set\<close>

lemma test_get_params_from_func:
  "get_params_from_func get_foo =
     \<lparr>all = [''name'', ''age'', ''is_alive''], required = [''name'', ''age''],
      optional = [''is_alive''], logic = [''name'', ''age'', ''is_alive'']\<rparr>"
  by (simp add: get_params_from_func_def get_foo_def)

lemma test_get_params_from_func_decorated_func:
  "get_params_from_func decorated_func =
     \<lparr>all = [''extra'', ''name'', ''is_alive''], required = [''name''],
      optional = [''is_alive''], logic = [''extra'', ''name'', ''is_alive'']\<rparr>"
  by (simp add: get_params_from_func_def decorated_func_def)

lemma filter_names_disjoint:
  assumes "distinct (map param_name ps)"
  shows "set (map param_name (filter (\<lambda>p. validating p \<and> \<not> has_default p) ps))
           \<inter> set (map param_name (filter has_default ps)) = {}"
proof -
  have "p = q" if "p \<in> set ps" "q \<in> set ps" "param_name p = param_name q" for p q
    using assms that by (meson distinct_map inj_onD)
  then show ?thesis
    by auto
qed

lemma unvalidated_not_required:
  assumes "distinct (map param_name ps)" and "p \<in> set ps" and "\<not> validating p"
  shows "param_name p \<notin> set (map param_name (filter (\<lambda>p. validating p \<and> \<not> has_default p) ps))"
proof
  assume "param_name p \<in> set (map param_name (filter (\<lambda>p. validating p \<and> \<not> has_default p) ps))"
  then obtain q where q: "q \<in> set ps" "validating q" "param_name q = param_name p"
    by auto
  with assms(1,2) have "q = p"
    by (meson distinct_map inj_onD)
  with q assms(3) show False
    by simp
qed

text \<open>
  C10. For every callable \<open>f\<close>: \<open>required\<close> is within \<open>all\<close>. When the real signature
  of \<open>f\<close> is \<open>ps\<close>, with the pairwise distinct names a signature has: \<open>required\<close> and
  \<open>optional\<close> are disjoint, and a parameter without a recognized validating type, such
  as one a wrapping decorator injects, is in \<open>all\<close> and \<open>logic\<close> and not in
  \<open>required\<close>. For a function with no parameters all four fields are empty.
\<close>

theorem resolved_parameter_set:
  "set (required (get_params_from_func f)) \<subseteq> set (all (get_params_from_func f))
   \<and> (real_signature f = Some ps \<and> distinct (map param_name ps) \<longrightarrow>
        set (required (get_params_from_func f)) \<inter> set (optional (get_params_from_func f)) = {}
      \<and> (\<forall>p \<in> set ps. \<not> validating p \<longrightarrow>
            param_name p \<in> set (all (get_params_from_func f))
          \<and> param_name p \<in> set (logic (get_params_from_func f))
          \<and> param_name p \<notin> set (required (get_params_from_func f))))
   \<and> (real_signature f = Some [] \<longrightarrow>
        get_params_from_func f = \<lparr>all = [], required = [], optional = [], logic = []\<rparr>)"
proof (intro conjI impI ballI)
  show "set (required (get_params_from_func f)) \<subseteq> set (all (get_params_from_func f))"
    by (auto simp: get_params_from_func_def split: option.split)
next
  assume a: "real_signature f = Some ps \<and> distinct (map param_name ps)"
  then show "set (required (get_params_from_func f))
      \<inter> set (optional (get_params_from_func f)) = {}"
    using filter_names_disjoint [of ps] by (simp add: get_params_from_func_def)
  fix p
  assume p: "p \<in> set ps" "\<not> validating p"
  from a p show "param_name p \<in> set (all (get_params_from_func f))"
    by (simp add: get_params_from_func_def)
  from a p show "param_name p \<in> set (logic (get_params_from_func f))"
    by (simp add: get_params_from_func_def)
  from a p unvalidated_not_required [of ps p]
  show "param_name p \<notin> set (required (get_params_from_func f))"
    by (simp add: get_params_from_func_def)
next
  assume "real_signature f = Some []"
  then show "get_params_from_func f = \<lparr>all = [], required = [], optional = [], logic = []\<rparr>"
    by (simp add: get_params_from_func_def)
qed

text \<open>
  The decorated function of the tests: \<open>extra\<close>, which the decorator passes, is in
  \<open>all\<close> and \<open>logic\<close> and not in \<open>required\<close>; and \<open>no_params\<close> resolves to four empty
  fields.
\<close>

theorem resolved_parameter_set_witness:
  "set (required (get_params_from_func decorated_func))
       \<inter> set (optional (get_params_from_func decorated_func)) = {}
   \<and> ''extra'' \<in> set (all (get_params_from_func decorated_func))
   \<and> ''extra'' \<in> set (logic (get_params_from_func decorated_func))
   \<and> ''extra'' \<notin> set (required (get_params_from_func decorated_func))
   \<and> get_params_from_func (Function [])
       = \<lparr>all = [], required = [], optional = [], logic = []\<rparr>"
proof -
  let ?ps = "[\<lparr>param_name = ''extra'', validating = False, has_default = False\<rparr>,
        \<lparr>param_name = ''name'', validating = True, has_default = False\<rparr>,
        \<lparr>param_name = ''is_alive'', validating = True, has_default = True\<rparr>]"
  have sig: "real_signature decorated_func = Some ?ps \<and> distinct (map param_name ?ps)"
    by (simp add: decorated_func_def)
  have e: "\<lparr>param_name = ''extra'', validating = False, has_default = False\<rparr> \<in> set ?ps"
    by simp
  note r = resolved_parameter_set [of decorated_func ?ps, THEN conjunct2]
  from r [THEN conjunct1, rule_format, OF sig]
  have d: "set (required (get_params_from_func decorated_func))
       \<inter> set (optional (get_params_from_func decorated_func)) = {}"
    and x: "\<forall>p \<in> set ?ps. \<not> validating p \<longrightarrow>
            param_name p \<in> set (all (get_params_from_func decorated_func))
          \<and> param_name p \<in> set (logic (get_params_from_func decorated_func))
          \<and> param_name p \<notin> set (required (get_params_from_func decorated_func))"
    by blast+
  from x [rule_format, OF e] have
    "''extra'' \<in> set (all (get_params_from_func decorated_func))
     \<and> ''extra'' \<in> set (logic (get_params_from_func decorated_func))
     \<and> ''extra'' \<notin> set (required (get_params_from_func decorated_func))"
    by simp
  moreover have "real_signature (Function []) = Some []"
    by simp
  from resolved_parameter_set [of "Function []" "[]", THEN conjunct2, THEN conjunct2,
      rule_format, OF this]
  have "get_params_from_func (Function [])
      = \<lparr>all = [], required = [], optional = [], logic = []\<rparr>" .
  ultimately show ?thesis
    using d by (intro conjI) simp_all
qed

end
